theory Spec2Isabelle
  imports Complex_Main
begin

section \<open>JavaScript values used by the handlers\<close>

text \<open>
  The handlers of \<^verbatim>\<open>server.js\<close> read text fields of the request body, compare them
  with \<^verbatim>\<open>undefined\<close>, test them for truthiness, trim them and parse them as
  numbers or dates. A body field is absent (\<^verbatim>\<open>undefined\<close>), \<^verbatim>\<open>null\<close>, a string,
  or any other value: a number or a boolean of a JSON body, or the array or object that
  a repeated or bracketed form field becomes. Such a value is given by what the handlers
  and the mapper ask of it: whether it is truthy, its \<^verbatim>\<open>ToString\<close> (which
  \<^verbatim>\<open>parseFloat\<close> reads), and what the mapper's cast to a String path makes of it
  (\<open>None\<close> when the cast is refused). It has no \<^verbatim>\<open>trim\<close> method. Its \<^verbatim>\<open>ToString\<close>
  is \<open>None\<close> when the conversion throws, as it does for the object without prototype
  that the upload middleware makes of a bracketed form field. A string is a list of code
  units below 256.
\<close>

datatype jsval = JUndefined | JNull | JStr string | JOther bool "string option" "string option"

text \<open>
  A JavaScript number: \<^verbatim>\<open>NaN\<close>, the two infinities, or a finite value. The finite
  value is kept exact; rounding to binary64 is not modelled.
\<close>

datatype jsnum = NaN | PosInfinity | NegInfinity | Fin rat

text \<open>A \<^verbatim>\<open>Date\<close> object: its time value in milliseconds, or an invalid date.\<close>

datatype jsdate = InvalidDate | Date int

text \<open>
  What a statement inside a \<^verbatim>\<open>try\<close> block can throw: a \<^verbatim>\<open>TypeError\<close> of the
  language, and the errors of the document mapper (an identifier that cannot be cast,
  a document rejected by the schema with the paths that failed, a duplicate key).
\<close>

datatype js_error = TypeError | CastError | ValidationError "string list" | DuplicateKey

text \<open>
  Truthiness of a body field: \<^verbatim>\<open>undefined\<close>, \<^verbatim>\<open>null\<close> and the empty string are
  falsy, every other string is truthy, and a value that is not a string carries its own.
\<close>

fun truthy :: "jsval \<Rightarrow> bool" where
  "truthy (JStr s) = (s \<noteq> [])"
| "truthy JNull = False"
| "truthy JUndefined = False"
| "truthy (JOther t s c) = t"

fun falsy :: "jsval \<Rightarrow> bool" where
  "falsy (JStr s) = (s = [])"
| "falsy JNull = True"
| "falsy JUndefined = True"
| "falsy (JOther t s c) = (\<not> t)"

fun isString :: "jsval \<Rightarrow> bool" where
  "isString (JStr s) = True"
| "isString JNull = False"
| "isString JUndefined = False"
| "isString (JOther t s c) = False"

text \<open>
  \<^verbatim>\<open>ToString\<close> of a body field, as \<^verbatim>\<open>parseFloat\<close> applies it to its argument, and
  whether that conversion throws. Where it throws there is no string: \<open>toString\<close> is
  the empty string there, and the handlers below ask \<open>convThrows\<close> before they read it.
\<close>

fun convThrows :: "jsval \<Rightarrow> bool" where
  "convThrows (JStr s) = False"
| "convThrows JNull = False"
| "convThrows JUndefined = False"
| "convThrows (JOther t s c) = (s = None)"

fun toString :: "jsval \<Rightarrow> string" where
  "toString (JStr s) = s"
| "toString JNull = ''null''"
| "toString JUndefined = ''undefined''"
| "toString (JOther t s c) = (case s of None \<Rightarrow> [] | Some x \<Rightarrow> x)"

subsection \<open>String.prototype.trim\<close>

text \<open>
  White space and line terminators among the code units below 256: TAB, LF, VT, FF, CR,
  SP and NBSP.
\<close>

definition isWhiteSpace :: "char \<Rightarrow> bool" where
  "isWhiteSpace c = (of_char c \<in> {9, 10, 11, 12, 13, 32, 160 :: nat})"

definition trim :: "string \<Rightarrow> string" where
  "trim s = rev (dropWhile isWhiteSpace (rev (dropWhile isWhiteSpace s)))"

subsection \<open>parseFloat\<close>

text \<open>
  \<^verbatim>\<open>parseFloat\<close> skips leading white space and reads the longest prefix that is a
  decimal literal: an optional sign, then \<^verbatim>\<open>Infinity\<close> or digits with an optional
  fraction and an optional exponent. With no such prefix the result is \<^verbatim>\<open>NaN\<close>.
\<close>

definition isDigit :: "char \<Rightarrow> bool" where
  "isDigit c = (48 \<le> (of_char c :: nat) \<and> (of_char c :: nat) \<le> 57)"

definition digitsValue :: "string \<Rightarrow> nat" where
  "digitsValue ds = foldl (\<lambda>a c. 10 * a + (of_char c - 48)) 0 ds"

text \<open>The exponent part: \<^verbatim>\<open>e\<close> or \<^verbatim>\<open>E\<close>, an optional sign and at least one digit.\<close>

fun signedInteger :: "string \<Rightarrow> int" where
  "signedInteger (c # t) =
     (if c = CHR ''-'' then
        (if takeWhile isDigit t = [] then 0 else - int (digitsValue (takeWhile isDigit t)))
      else if c = CHR ''+'' then
        (if takeWhile isDigit t = [] then 0 else int (digitsValue (takeWhile isDigit t)))
      else int (digitsValue (takeWhile isDigit (c # t))))"
| "signedInteger [] = 0"

fun exponentPart :: "string \<Rightarrow> int" where
  "exponentPart (c # t) = (if c = CHR ''e'' \<or> c = CHR ''E'' then signedInteger t else 0)"
| "exponentPart [] = 0"

definition scale10 :: "rat \<Rightarrow> int \<Rightarrow> rat" where
  "scale10 m e = (if 0 \<le> e then m * 10 ^ nat e else m / 10 ^ nat (- e))"

definition strUnsignedDecimalLiteral :: "string \<Rightarrow> jsnum" where
  "strUnsignedDecimalLiteral s =
     (if take 8 s = ''Infinity'' then PosInfinity
      else
        let ip = takeWhile isDigit s;
            r1 = dropWhile isDigit s;
            fp = (case r1 of c # t \<Rightarrow> if c = CHR ''.'' then takeWhile isDigit t else []
                  | [] \<Rightarrow> []);
            r2 = (case r1 of c # t \<Rightarrow> if c = CHR ''.'' then dropWhile isDigit t else r1
                  | [] \<Rightarrow> [])
        in if ip = [] \<and> fp = [] then NaN
           else Fin (scale10 (of_nat (digitsValue (ip @ fp)) / 10 ^ length fp)
                       (exponentPart r2)))"

fun negate :: "jsnum \<Rightarrow> jsnum" where
  "negate NaN = NaN"
| "negate PosInfinity = NegInfinity"
| "negate NegInfinity = PosInfinity"
| "negate (Fin r) = Fin (- r)"

fun strDecimalLiteral :: "string \<Rightarrow> jsnum" where
  "strDecimalLiteral (c # t) =
     (if c = CHR ''-'' then negate (strUnsignedDecimalLiteral t)
      else if c = CHR ''+'' then strUnsignedDecimalLiteral t
      else strUnsignedDecimalLiteral (c # t))"
| "strDecimalLiteral [] = NaN"

definition parseFloat :: "jsval \<Rightarrow> jsnum" where
  "parseFloat v = strDecimalLiteral (dropWhile isWhiteSpace (toString v))"

fun isNaN :: "jsnum \<Rightarrow> bool" where
  "isNaN NaN = True"
| "isNaN PosInfinity = False"
| "isNaN NegInfinity = False"
| "isNaN (Fin r) = False"

section \<open>Documents, the store and the responses\<close>

text \<open>
  A product document as \<^verbatim>\<open>productSchema\<close> declares it. \<^verbatim>\<open>description\<close> and
  \<^verbatim>\<open>status\<close> hold a string or \<^verbatim>\<open>null\<close> (\<open>None\<close>); \<^verbatim>\<open>statusNote\<close> and
  \<^verbatim>\<open>expectedArrival\<close> hold a value or nothing (\<open>None\<close> stands for both
  \<^verbatim>\<open>undefined\<close> and \<^verbatim>\<open>null\<close>). The timestamps \<^verbatim>\<open>createdAt\<close> and
  \<^verbatim>\<open>updatedAt\<close>, which the mapper maintains on its own, are not part of the record.
  \<^verbatim>\<open>castErrors\<close> is not a path of the schema: it lists the paths to which a value was
  assigned that the mapper could not cast, since the document was loaded or made. The
  mapper rejects such a document when it is saved, so a saved document has none.
\<close>

type_synonym objectId = string

record product =
  name :: string
  price :: jsnum
  mainImage :: string
  mainImagePublicId :: string
  otherPhotos :: "string list"
  otherPhotosPublicIds :: "string list"
  description :: "string option"
  classifications :: string
  status :: "string option"
  statusNote :: "string option"
  expectedArrival :: "jsdate option"
  uploadDate :: int
  castErrors :: "string list"

text \<open>An uploaded file as the upload middleware hands it to a handler.\<close>

record uploadedFile =
  path :: string
  filename :: string

text \<open>
  \<^verbatim>\<open>req.body\<close> of the product routes and \<^verbatim>\<open>req.files\<close>. A file field that is
  missing (or a missing \<^verbatim>\<open>req.files\<close>) is \<open>None\<close>.
\<close>

record body =
  b_name :: jsval
  b_price :: jsval
  b_description :: jsval
  b_classifications :: jsval
  b_status :: jsval
  b_statusNote :: jsval
  b_expectedArrival :: jsval

record files =
  f_mainImage :: "uploadedFile list option"
  f_otherPhotos :: "uploadedFile list option"

text \<open>
  What the platform decides and the source does not: how the mapper casts the
  \<^verbatim>\<open>:id\<close> parameter to a store identifier (\<open>None\<close> when the string is not a
  well-formed identifier), what \<^verbatim>\<open>new Date(v)\<close> makes of a value, the clock, and the
  identifier a document created during the request receives.
\<close>

record runtime =
  castObjectId :: "string \<Rightarrow> objectId option"
  newDate :: "jsval \<Rightarrow> jsdate"
  now :: int
  freshId :: objectId

text \<open>
  The state outside the process: the product collection, keyed by identifier, and the
  sequence of public ids for which the image service was asked to destroy an asset.
\<close>

record world =
  products :: "objectId \<rightharpoonup> product"
  destroyed :: "string list"

text \<open>The JSON payloads of the responses, and a response with its status code.\<close>

datatype 'd payload =
    Error string
  | ErrorDetails string js_error
  | ErrorValidStatuses string "string list"
  | Doc 'd
  | MessageDoc string 'd
  | Message string

datatype 'd response = Response (statusCode: nat) (payload: "'d payload")

text \<open>
  A statement sequence inside \<^verbatim>\<open>try\<close>: it throws, returns a response early, or
  goes on with a value.
\<close>

datatype ('r, 'a) step = Throw js_error | Return 'r | Continue 'a

fun andThen :: "('r, 'a) step \<Rightarrow> ('a \<Rightarrow> ('r, 'b) step) \<Rightarrow> ('r, 'b) step" where
  "andThen (Throw e) f = Throw e"
| "andThen (Return r) f = Return r"
| "andThen (Continue a) f = f a"

text \<open>\<^verbatim>\<open>v.trim()\<close>: defined on strings, a \<^verbatim>\<open>TypeError\<close> on anything else.\<close>

fun js_trim :: "jsval \<Rightarrow> ('r, string) step" where
  "js_trim (JStr s) = Continue (trim s)"
| "js_trim JNull = Throw TypeError"
| "js_trim JUndefined = Throw TypeError"
| "js_trim (JOther t s c) = Throw TypeError"

text \<open>
  Assigning a value to a String path: a string and \<^verbatim>\<open>null\<close> are taken as they are,
  any other value is cast by the mapper. A cast that is refused does not throw: the path
  keeps what it held and is recorded in \<^verbatim>\<open>castErrors\<close>.
\<close>

fun castString :: "jsval \<Rightarrow> string option" where
  "castString (JStr s) = Some s"
| "castString JNull = None"
| "castString JUndefined = None"
| "castString (JOther t s c) = c"

fun castFails :: "jsval \<Rightarrow> bool" where
  "castFails (JStr s) = False"
| "castFails JNull = False"
| "castFails JUndefined = False"
| "castFails (JOther t s c) = (c = None)"

text \<open>
  \<^verbatim>\<open>parseFloat(v)\<close> and \<^verbatim>\<open>new Date(v)\<close> convert their argument first, and throw a
  \<^verbatim>\<open>TypeError\<close> when the conversion does.
\<close>

definition js_parseFloat :: "jsval \<Rightarrow> ('r, jsnum) step" where
  "js_parseFloat v = (if convThrows v then Throw TypeError else Continue (parseFloat v))"

definition js_newDate :: "runtime \<Rightarrow> jsval \<Rightarrow> ('r, jsdate) step" where
  "js_newDate rt v = (if convThrows v then Throw TypeError else Continue (newDate rt v))"

subsection \<open>The schema's validators\<close>

definition validStatuses :: "string list" where
  "validStatuses = [''available'', ''restoring'', ''on_the_way'', ''out_of_stock'', ''discontinued'']"

text \<open>\<^verbatim>\<open>price: { type: Number, required: true, min: 0 }\<close>.\<close>

fun priceValid :: "jsnum \<Rightarrow> bool" where
  "priceValid NaN = False"
| "priceValid PosInfinity = True"
| "priceValid NegInfinity = False"
| "priceValid (Fin r) = (0 \<le> r)"

text \<open>\<^verbatim>\<open>status: { type: String, enum: [...] }\<close>; \<^verbatim>\<open>null\<close> passes the enum.\<close>

fun statusValid :: "string option \<Rightarrow> bool" where
  "statusValid None = True"
| "statusValid (Some s) = (s \<in> set validStatuses)"

fun dateValid :: "jsdate option \<Rightarrow> bool" where
  "dateValid None = True"
| "dateValid (Some InvalidDate) = False"
| "dateValid (Some (Date t)) = True"

text \<open>
  The paths of a document that the schema rejects when it is saved: the paths with a
  cast error, and then a required string must be non-empty, the price a number that is
  at least 0, the status a member of the enum, the expected arrival a valid date.
\<close>

definition invalidPaths :: "product \<Rightarrow> string list" where
  "invalidPaths p =
     castErrors p @
     (if name p = [] then [''name''] else []) @
     (if priceValid (price p) then [] else [''price'']) @
     (if mainImage p = [] then [''mainImage''] else []) @
     (if mainImagePublicId p = [] then [''mainImagePublicId''] else []) @
     (if statusValid (status p) then [] else [''status'']) @
     (if dateValid (expectedArrival p) then [] else [''expectedArrival''])"

subsection \<open>The operations of the document mapper\<close>

text \<open>\<^verbatim>\<open>Product.findById(id)\<close>: throws when the id cannot be cast.\<close>

definition findById :: "runtime \<Rightarrow> string \<Rightarrow> world \<Rightarrow> ('r, (objectId \<times> product) option) step" where
  "findById rt pid w =
     (case castObjectId rt pid of
        None \<Rightarrow> Throw CastError
      | Some oid \<Rightarrow>
          (case products w oid of
             None \<Rightarrow> Continue None
           | Some p \<Rightarrow> Continue (Some (oid, p))))"

text \<open>\<^verbatim>\<open>product.save()\<close> on a document that was loaded from the store.\<close>

definition save :: "objectId \<Rightarrow> product \<Rightarrow> world \<Rightarrow> ('r, world) step" where
  "save oid p w =
     (if invalidPaths p = [] then Continue (w\<lparr>products := (products w)(oid \<mapsto> p)\<rparr>)
      else Throw (ValidationError (invalidPaths p)))"

text \<open>\<^verbatim>\<open>newProduct.save()\<close> on a document made by \<^verbatim>\<open>new Product(...)\<close>.\<close>

definition saveNew :: "objectId \<Rightarrow> product \<Rightarrow> world \<Rightarrow> ('r, world) step" where
  "saveNew oid p w =
     (if invalidPaths p = [] then
        (case products w oid of
           None \<Rightarrow> Continue (w\<lparr>products := (products w)(oid \<mapsto> p)\<rparr>)
         | Some q \<Rightarrow> Throw DuplicateKey)
      else Throw (ValidationError (invalidPaths p)))"

text \<open>\<^verbatim>\<open>Product.findByIdAndDelete(id)\<close>.\<close>

definition findByIdAndDelete :: "runtime \<Rightarrow> string \<Rightarrow> world \<Rightarrow> ('r, world) step" where
  "findByIdAndDelete rt pid w =
     (case castObjectId rt pid of
        None \<Rightarrow> Throw CastError
      | Some oid \<Rightarrow> Continue (w\<lparr>products := (products w)(oid := None)\<rparr>))"

text \<open>
  \<^verbatim>\<open>safeCloudinaryDestroy\<close>: asks the image service to destroy the asset when the
  public id is truthy; a failure of the service is caught and logged, so the caller
  goes on either way.
\<close>

definition safeCloudinaryDestroy :: "string \<Rightarrow> world \<Rightarrow> world" where
  "safeCloudinaryDestroy publicId w =
     (if publicId \<noteq> [] then w\<lparr>destroyed := destroyed w @ [publicId]\<rparr> else w)"

text \<open>
  \<^verbatim>\<open>try { ... } catch (error) { res.status(500).json(...) }\<close>: the response of the
  block, or the handler's error envelope when a statement threw. What was done to the
  world before the throw stays done.
\<close>

definition catch :: "('d response, 'd response) step \<times> world \<Rightarrow> (js_error \<Rightarrow> 'd response)
    \<Rightarrow> 'd response \<times> world" where
  "catch r h =
     (case fst r of
        Throw e \<Rightarrow> (h e, snd r)
      | Return resp \<Rightarrow> (resp, snd r)
      | Continue resp \<Rightarrow> (resp, snd r))"

section \<open>POST /products/upload\<close>

text \<open>
  Every route below first runs \<^verbatim>\<open>checkDbConnection\<close>, which answers 503 when the
  store connection is not ready, and the routes that take files then run the upload
  middleware. The definitions are the handler functions themselves: what happens to a
  request that has reached the handler.
\<close>

text \<open>\<^verbatim>\<open>description || ''\<close>.\<close>

definition orEmpty :: "jsval \<Rightarrow> jsval" where
  "orEmpty v = (if truthy v then v else JStr [])"

text \<open>
  \<^verbatim>\<open>productData\<close> as the handler builds it, completed by \<^verbatim>\<open>new Product\<close> with the
  schema's defaults (\<^verbatim>\<open>status: 'available'\<close>, \<^verbatim>\<open>uploadDate: Date.now\<close>). The status
  fields are set only when the body's value is truthy. A description or a status that
  the mapper cannot cast is recorded in \<^verbatim>\<open>castErrors\<close> and the path keeps its default.
\<close>

definition productData :: "runtime \<Rightarrow> body \<Rightarrow> uploadedFile \<Rightarrow> uploadedFile list
    \<Rightarrow> ('r, product) step" where
  "productData rt b mainImageFile otherPhotosFiles =
     andThen (js_trim (b_name b)) (\<lambda>nm.
     andThen (js_parseFloat (b_price b)) (\<lambda>parsedPrice.
     andThen (if truthy (b_classifications b) then js_trim (b_classifications b)
              else Continue []) (\<lambda>cls.
     andThen (if truthy (b_statusNote b)
              then andThen (js_trim (b_statusNote b)) (\<lambda>s. Continue (Some s))
              else Continue None) (\<lambda>note.
     andThen (if truthy (b_expectedArrival b)
              then andThen (js_newDate rt (b_expectedArrival b)) (\<lambda>d. Continue (Some d))
              else Continue None) (\<lambda>arrival.
     Continue
       \<lparr> name = nm,
         price = parsedPrice,
         mainImage = path mainImageFile,
         mainImagePublicId = filename mainImageFile,
         otherPhotos = map path otherPhotosFiles,
         otherPhotosPublicIds = map filename otherPhotosFiles,
         description = castString (orEmpty (b_description b)),
         classifications = cls,
         status =
           (if truthy (b_status b) then
              (if castFails (b_status b) then Some ''available'' else castString (b_status b))
            else Some ''available''),
         statusNote = note,
         expectedArrival = arrival,
         uploadDate = now rt,
         castErrors =
           (if castFails (orEmpty (b_description b)) then [''description''] else []) @
           (if truthy (b_status b) then (if castFails (b_status b) then [''status''] else [])
            else []) \<rparr>)))))"

definition post_products_upload_try :: "runtime \<Rightarrow> body \<Rightarrow> files \<Rightarrow> world
    \<Rightarrow> ((objectId \<times> product) response, (objectId \<times> product) response) step \<times> world" where
  "post_products_upload_try rt b fs w =
     (if falsy (b_name b) then
        (Return (Response 400 (Error ''Product name is required'')), w)
      else if falsy (b_price b) then
        (Return (Response 400 (Error ''Valid price is required'')), w)
      else
        (case js_parseFloat (b_price b) of
           Throw e \<Rightarrow> (Throw e, w)
         | Return r \<Rightarrow> (Return r, w)
         | Continue parsed \<Rightarrow>
             if isNaN parsed then
               (Return (Response 400 (Error ''Valid price is required'')), w)
             else
               (case f_mainImage fs of
                  None \<Rightarrow> (Return (Response 400 (Error ''Main image is required'')), w)
                | Some [] \<Rightarrow> (Throw TypeError, w)
                | Some (mainImageFile # rest) \<Rightarrow>
                    (case productData rt b mainImageFile
                            (case f_otherPhotos fs of None \<Rightarrow> []
                             | Some otherPhotosFiles \<Rightarrow> otherPhotosFiles) of
                       Throw e \<Rightarrow> (Throw e, w)
                     | Return r \<Rightarrow> (Return r, w)
                     | Continue newProduct \<Rightarrow>
                         (case saveNew (freshId rt) newProduct w of
                            Throw e \<Rightarrow> (Throw e, w)
                          | Return r \<Rightarrow> (Return r, w)
                          | Continue w' \<Rightarrow>
                              (Continue (Response 201
                                 (MessageDoc ''Product created successfully!''
                                    (freshId rt, newProduct))),
                               w'))))))"

definition post_products_upload :: "runtime \<Rightarrow> body \<Rightarrow> files \<Rightarrow> world
    \<Rightarrow> (objectId \<times> product) response \<times> world" where
  "post_products_upload rt b fs w =
     catch (post_products_upload_try rt b fs w)
       (\<lambda>error. Response 500 (ErrorDetails ''Failed to create product'' error))"

section \<open>GET /products/:id\<close>

definition get_products_id_try :: "runtime \<Rightarrow> string \<Rightarrow> world
    \<Rightarrow> ((objectId \<times> product) response, (objectId \<times> product) response) step \<times> world" where
  "get_products_id_try rt pid w =
     (case findById rt pid w of
        Throw e \<Rightarrow> (Throw e, w)
      | Return r \<Rightarrow> (Return r, w)
      | Continue None \<Rightarrow> (Return (Response 404 (Error ''Product not found'')), w)
      | Continue (Some product) \<Rightarrow> (Continue (Response 200 (Doc product)), w))"

definition get_products_id :: "runtime \<Rightarrow> string \<Rightarrow> world
    \<Rightarrow> (objectId \<times> product) response \<times> world" where
  "get_products_id rt pid w =
     catch (get_products_id_try rt pid w) (\<lambda>error. Response 500 (Error ''Failed to fetch product''))"

section \<open>PUT /products/:id\<close>

text \<open>The assignments to the loaded document, one definition per statement.\<close>

definition setName :: "body \<Rightarrow> product \<Rightarrow> ('r, product) step" where
  "setName b product =
     (if truthy (b_name b) then andThen (js_trim (b_name b)) (\<lambda>s. Continue (product\<lparr>name := s\<rparr>))
      else Continue product)"

definition setPrice :: "body \<Rightarrow> product \<Rightarrow> ('d response, product) step" where
  "setPrice b product =
     (if b_price b \<noteq> JUndefined then
        andThen (js_parseFloat (b_price b)) (\<lambda>parsedPrice.
          if isNaN parsedPrice then Return (Response 400 (Error ''Invalid price value''))
          else Continue (product\<lparr>price := parsedPrice\<rparr>))
      else Continue product)"

definition setDescription :: "body \<Rightarrow> product \<Rightarrow> ('r, product) step" where
  "setDescription b product =
     (if b_description b \<noteq> JUndefined then
        (if castFails (b_description b)
         then Continue (product\<lparr>castErrors := castErrors product @ [''description'']\<rparr>)
         else Continue (product\<lparr>description := castString (b_description b)\<rparr>))
      else Continue product)"

definition setClassifications :: "body \<Rightarrow> product \<Rightarrow> ('r, product) step" where
  "setClassifications b product =
     (if b_classifications b \<noteq> JUndefined
      then andThen (js_trim (b_classifications b)) (\<lambda>s. Continue (product\<lparr>classifications := s\<rparr>))
      else Continue product)"

definition setStatus :: "body \<Rightarrow> product \<Rightarrow> ('r, product) step" where
  "setStatus b product =
     (if b_status b \<noteq> JUndefined then
        (if castFails (b_status b)
         then Continue (product\<lparr>castErrors := castErrors product @ [''status'']\<rparr>)
         else Continue (product\<lparr>status := castString (b_status b)\<rparr>))
      else Continue product)"

definition setStatusNote :: "body \<Rightarrow> product \<Rightarrow> ('r, product) step" where
  "setStatusNote b product =
     (if b_statusNote b \<noteq> JUndefined
      then andThen (js_trim (b_statusNote b)) (\<lambda>s. Continue (product\<lparr>statusNote := Some s\<rparr>))
      else Continue product)"

definition setExpectedArrival :: "runtime \<Rightarrow> body \<Rightarrow> product \<Rightarrow> ('r, product) step" where
  "setExpectedArrival rt b product =
     (if b_expectedArrival b \<noteq> JUndefined then
        (if truthy (b_expectedArrival b)
         then andThen (js_newDate rt (b_expectedArrival b))
                (\<lambda>d. Continue (product\<lparr>expectedArrival := Some d\<rparr>))
         else Continue (product\<lparr>expectedArrival := None\<rparr>))
      else Continue product)"

definition setTextFields :: "runtime \<Rightarrow> body \<Rightarrow> product \<Rightarrow> ('d response, product) step" where
  "setTextFields rt b product =
     andThen (setName b product) (\<lambda>p.
     andThen (setPrice b p) (\<lambda>p.
     andThen (setDescription b p) (\<lambda>p.
     andThen (setClassifications b p) (\<lambda>p.
     andThen (setStatus b p) (\<lambda>p.
     andThen (setStatusNote b p) (\<lambda>p.
     setExpectedArrival rt b p))))))"

text \<open>
  A new main image: the old asset is destroyed, then the document takes the path and
  the public id of the first uploaded file.
\<close>

definition setMainImage :: "files \<Rightarrow> product \<Rightarrow> world \<Rightarrow> ('r, product) step \<times> world" where
  "setMainImage fs product w =
     (case f_mainImage fs of
        None \<Rightarrow> (Continue product, w)
      | Some [] \<Rightarrow> (Throw TypeError, safeCloudinaryDestroy (mainImagePublicId product) w)
      | Some (mainImageFile # rest) \<Rightarrow>
          (Continue (product\<lparr>mainImage := path mainImageFile,
                             mainImagePublicId := filename mainImageFile\<rparr>),
           safeCloudinaryDestroy (mainImagePublicId product) w))"

text \<open>
  New other photos: every old asset is destroyed, then both arrays are rebuilt from
  the uploaded files.
\<close>

definition setOtherPhotos :: "files \<Rightarrow> product \<Rightarrow> world \<Rightarrow> product \<times> world" where
  "setOtherPhotos fs product w =
     (case f_otherPhotos fs of
        None \<Rightarrow> (product, w)
      | Some otherPhotosFiles \<Rightarrow>
          (product\<lparr>otherPhotos := map path otherPhotosFiles,
                    otherPhotosPublicIds := map filename otherPhotosFiles\<rparr>,
           fold safeCloudinaryDestroy (otherPhotosPublicIds product) w))"

definition put_products_id_try :: "runtime \<Rightarrow> string \<Rightarrow> body \<Rightarrow> files \<Rightarrow> world
    \<Rightarrow> ((objectId \<times> product) response, (objectId \<times> product) response) step \<times> world" where
  "put_products_id_try rt pid b fs w =
     (case findById rt pid w of
        Throw e \<Rightarrow> (Throw e, w)
      | Return r \<Rightarrow> (Return r, w)
      | Continue None \<Rightarrow> (Return (Response 404 (Error ''Product not found'')), w)
      | Continue (Some (oid, product)) \<Rightarrow>
          (case setTextFields rt b product of
             Throw e \<Rightarrow> (Throw e, w)
           | Return r \<Rightarrow> (Return r, w)
           | Continue p1 \<Rightarrow>
               (case setMainImage fs p1 w of
                  (Throw e, w1) \<Rightarrow> (Throw e, w1)
                | (Return r, w1) \<Rightarrow> (Return r, w1)
                | (Continue p2, w1) \<Rightarrow>
                    (case setOtherPhotos fs p2 w1 of
                       (p3, w2) \<Rightarrow>
                         (case save oid p3 w2 of
                            Throw e \<Rightarrow> (Throw e, w2)
                          | Return r \<Rightarrow> (Return r, w2)
                          | Continue w3 \<Rightarrow>
                              (Continue (Response 200
                                 (MessageDoc ''Product updated successfully'' (oid, p3))),
                               w3))))))"

definition put_products_id :: "runtime \<Rightarrow> string \<Rightarrow> body \<Rightarrow> files \<Rightarrow> world
    \<Rightarrow> (objectId \<times> product) response \<times> world" where
  "put_products_id rt pid b fs w =
     catch (put_products_id_try rt pid b fs w)
       (\<lambda>error. Response 500 (Error ''Failed to update product''))"

section \<open>PATCH /products/:id/status\<close>

text \<open>\<^verbatim>\<open>validStatuses.includes(status)\<close>.\<close>

fun arrayIncludes :: "string list \<Rightarrow> jsval \<Rightarrow> bool" where
  "arrayIncludes xs (JStr s) = (s \<in> set xs)"
| "arrayIncludes xs JNull = False"
| "arrayIncludes xs JUndefined = False"
| "arrayIncludes xs (JOther t s c) = False"

definition patch_products_id_status_try :: "runtime \<Rightarrow> string \<Rightarrow> body \<Rightarrow> world
    \<Rightarrow> ((objectId \<times> product) response, (objectId \<times> product) response) step \<times> world" where
  "patch_products_id_status_try rt pid b w =
     (case findById rt pid w of
        Throw e \<Rightarrow> (Throw e, w)
      | Return r \<Rightarrow> (Return r, w)
      | Continue None \<Rightarrow> (Return (Response 404 (Error ''Product not found'')), w)
      | Continue (Some (oid, product)) \<Rightarrow>
          (if truthy (b_status b) \<and> \<not> arrayIncludes validStatuses (b_status b) then
             (Return (Response 400 (ErrorValidStatuses ''Invalid status'' validStatuses)), w)
           else
             (case andThen (setStatus b product) (\<lambda>p.
                   andThen (setStatusNote b p) (\<lambda>p.
                   setExpectedArrival rt b p)) of
                Throw e \<Rightarrow> (Throw e, w)
              | Return r \<Rightarrow> (Return r, w)
              | Continue p' \<Rightarrow>
                  (case save oid p' w of
                     Throw e \<Rightarrow> (Throw e, w)
                   | Return r \<Rightarrow> (Return r, w)
                   | Continue w' \<Rightarrow>
                       (Continue (Response 200
                          (MessageDoc ''Product status updated successfully'' (oid, p'))),
                        w')))))"

definition patch_products_id_status :: "runtime \<Rightarrow> string \<Rightarrow> body \<Rightarrow> world
    \<Rightarrow> (objectId \<times> product) response \<times> world" where
  "patch_products_id_status rt pid b w =
     catch (patch_products_id_status_try rt pid b w)
       (\<lambda>error. Response 500 (Error ''Failed to update product status''))"

section \<open>DELETE /products/:id\<close>

definition delete_products_id_try :: "runtime \<Rightarrow> string \<Rightarrow> world
    \<Rightarrow> ((objectId \<times> product) response, (objectId \<times> product) response) step \<times> world" where
  "delete_products_id_try rt pid w =
     (case findById rt pid w of
        Throw e \<Rightarrow> (Throw e, w)
      | Return r \<Rightarrow> (Return r, w)
      | Continue None \<Rightarrow> (Return (Response 404 (Error ''Product not found'')), w)
      | Continue (Some (oid, product)) \<Rightarrow>
          (let w1 = safeCloudinaryDestroy (mainImagePublicId product) w;
               w2 = fold safeCloudinaryDestroy (otherPhotosPublicIds product) w1
           in case findByIdAndDelete rt pid w2 of
                Throw e \<Rightarrow> (Throw e, w2)
              | Return r \<Rightarrow> (Return r, w2)
              | Continue w3 \<Rightarrow> (Continue (Response 200 (Message ''Product deleted successfully'')), w3)))"

definition delete_products_id :: "runtime \<Rightarrow> string \<Rightarrow> world
    \<Rightarrow> (objectId \<times> product) response \<times> world" where
  "delete_products_id rt pid w =
     catch (delete_products_id_try rt pid w) (\<lambda>error. Response 500 (Error ''Failed to delete product''))"

section \<open>The site configuration\<close>

text \<open>
  The configuration document. \<^verbatim>\<open>server.js\<close> declares \<^verbatim>\<open>siteSettingsSchema\<close> (the
  shared fields and \<^verbatim>\<open>updatedAt\<close>); the later version of the file declares
  \<^verbatim>\<open>siteConfigSchema\<close> (the shared fields and \<^verbatim>\<open>servicesText\<close>). A collection is
  the list of its documents in their natural order.
\<close>

record siteBase =
  landingTitle :: string
  landingDescription :: string
  aboutText :: string
  landingBanner :: string
  landingBannerPublicId :: string
  logo :: string
  logoPublicId :: string

record siteConfig = siteBase +
  servicesText :: string

record siteSettings = siteBase +
  updatedAt :: int

text \<open>\<^verbatim>\<open>new SiteConfig()\<close> and \<^verbatim>\<open>new SiteSettings()\<close>: every field at its default.\<close>

definition newSiteConfig :: siteConfig where
  "newSiteConfig =
     \<lparr> landingTitle = [], landingDescription = [], aboutText = [], landingBanner = [],
       landingBannerPublicId = [], logo = [], logoPublicId = [], servicesText = [] \<rparr>"

definition newSiteSettings :: "runtime \<Rightarrow> siteSettings" where
  "newSiteSettings rt =
     \<lparr> landingTitle = [], landingDescription = [], aboutText = [], landingBanner = [],
       landingBannerPublicId = [], logo = [], logoPublicId = [], updatedAt = now rt \<rparr>"

text \<open>\<^verbatim>\<open>Model.findOne()\<close> with no filter: the first document, if there is one.\<close>

fun findOne :: "(objectId \<times> 'c) list \<Rightarrow> (objectId \<times> 'c) option" where
  "findOne [] = None"
| "findOne (d # ds) = Some d"

text \<open>\<^verbatim>\<open>getOrCreateConfig\<close> of the later version.\<close>

definition getOrCreateConfig :: "runtime \<Rightarrow> (objectId \<times> siteConfig) list
    \<Rightarrow> (objectId \<times> siteConfig) \<times> (objectId \<times> siteConfig) list" where
  "getOrCreateConfig rt configs =
     (case findOne configs of
        None \<Rightarrow> ((freshId rt, newSiteConfig), configs @ [(freshId rt, newSiteConfig)])
      | Some config \<Rightarrow> (config, configs))"

text \<open>\<^verbatim>\<open>GET /settings\<close> of the later version.\<close>

definition get_settings :: "runtime \<Rightarrow> (objectId \<times> siteConfig) list
    \<Rightarrow> (objectId \<times> siteConfig) response \<times> (objectId \<times> siteConfig) list" where
  "get_settings rt configs =
     (case getOrCreateConfig rt configs of
        (settings, configs') \<Rightarrow> (Response 200 (Doc settings), configs'))"

text \<open>\<^verbatim>\<open>GET /settings\<close> of \<^verbatim>\<open>server.js\<close>, which looks up and creates in the handler.\<close>

definition get_settings_inline :: "runtime \<Rightarrow> (objectId \<times> siteSettings) list
    \<Rightarrow> (objectId \<times> siteSettings) response \<times> (objectId \<times> siteSettings) list" where
  "get_settings_inline rt docs =
     (case findOne docs of
        None \<Rightarrow>
          (Response 200 (Doc (freshId rt, newSiteSettings rt)),
           docs @ [(freshId rt, newSiteSettings rt)])
      | Some settings \<Rightarrow> (Response 200 (Doc settings), docs))"

section \<open>The invariant of the photo arrays\<close>

text \<open>
  The two photo arrays of a document are aligned when they have the same length; a
  world is aligned when every stored product is.
\<close>

definition photosAligned :: "product \<Rightarrow> bool" where
  "photosAligned p = (length (otherPhotos p) = length (otherPhotosPublicIds p))"

definition worldAligned :: "world \<Rightarrow> bool" where
  "worldAligned w = (\<forall>oid p. products w oid = Some p \<longrightarrow> photosAligned p)"

section \<open>Example requests\<close>

text \<open>
  A runtime, a stored product and requests on which the theorems below are run. The
  example runtime accepts the identifiers of 24 hexadecimal digits and knows one date.
\<close>

definition isHexDigit :: "char \<Rightarrow> bool" where
  "isHexDigit c = (c \<in> set ''0123456789abcdefABCDEF'')"

definition exampleRuntime :: runtime where
  "exampleRuntime =
     \<lparr> castObjectId = (\<lambda>s. if length s = 24 \<and> list_all isHexDigit s then Some s else None),
       newDate = (\<lambda>v. if v = JStr ''2026-01-01'' then Date 1767225600000 else InvalidDate),
       now = 1700000000000,
       freshId = ''65c1f2a3b4d5e6f7a8b9c0d2'' \<rparr>"

definition lampId :: objectId where
  "lampId = ''65c1f2a3b4d5e6f7a8b9c0d1''"

definition lamp :: product where
  "lamp =
     \<lparr> name = ''Lamp'', price = Fin 10, mainImage = ''https://img/lamp'',
       mainImagePublicId = ''lamp-main'', otherPhotos = [''https://img/a''],
       otherPhotosPublicIds = [''lamp-a''], description = Some ''A lamp'',
       classifications = ''lighting'', status = Some ''available'', statusNote = None,
       expectedArrival = None, uploadDate = 1600000000000, castErrors = [] \<rparr>"

definition lampWorld :: world where
  "lampWorld = \<lparr> products = [lampId \<mapsto> lamp], destroyed = [] \<rparr>"

definition emptyWorld :: world where
  "emptyWorld = \<lparr> products = Map.empty, destroyed = [] \<rparr>"

definition emptyBody :: body where
  "emptyBody =
     \<lparr> b_name = JUndefined, b_price = JUndefined, b_description = JUndefined,
       b_classifications = JUndefined, b_status = JUndefined, b_statusNote = JUndefined,
       b_expectedArrival = JUndefined \<rparr>"

definition noFiles :: files where
  "noFiles = \<lparr> f_mainImage = None, f_otherPhotos = None \<rparr>"

definition plugFiles :: files where
  "plugFiles =
     \<lparr> f_mainImage = Some [\<lparr> path = ''https://img/plug'', filename = ''plug-main'' \<rparr>],
       f_otherPhotos = Some [\<lparr> path = ''https://img/p1'', filename = ''plug-1'' \<rparr>,
                             \<lparr> path = ''https://img/p2'', filename = ''plug-2'' \<rparr>] \<rparr>"

section \<open>The documents a handler builds, in closed form\<close>

text \<open>
  Whether a \<^verbatim>\<open>trim()\<close> in an assignment throws: the assignment of the name when the
  name is truthy and not a string, the other two when the field is present and not a
  string. Then the document that the assignments of \<^verbatim>\<open>PUT /products/:id\<close> to the text
  fields leave behind when none of them returns or throws, the same for the three assignments of
  \<^verbatim>\<open>PATCH /products/:id/status\<close>, the document after the image assignments, and the
  world after the destroy calls that go with them. The lemmas below show that the
  handlers compute exactly these.
\<close>

definition nameTrimThrows :: "body \<Rightarrow> bool" where
  "nameTrimThrows b = (truthy (b_name b) \<and> \<not> isString (b_name b))"

fun trimThrows :: "jsval \<Rightarrow> bool" where
  "trimThrows (JStr s) = False"
| "trimThrows JUndefined = False"
| "trimThrows JNull = True"
| "trimThrows (JOther t s c) = True"

text \<open>
  Whether \<^verbatim>\<open>new Date(expectedArrival)\<close> throws; it is evaluated only when the field is
  truthy.
\<close>

definition newDateThrows :: "body \<Rightarrow> bool" where
  "newDateThrows b = (truthy (b_expectedArrival b) \<and> convThrows (b_expectedArrival b))"

text \<open>
  Whether building \<^verbatim>\<open>productData\<close> in \<^verbatim>\<open>POST /products/upload\<close> throws: one of its
  three \<^verbatim>\<open>trim()\<close> calls, each made only when its field is truthy, or the date.
\<close>

definition createThrows :: "body \<Rightarrow> bool" where
  "createThrows b =
     (nameTrimThrows b
      \<or> (truthy (b_classifications b) \<and> \<not> isString (b_classifications b))
      \<or> (truthy (b_statusNote b) \<and> \<not> isString (b_statusNote b))
      \<or> newDateThrows b)"

definition textFieldsAssigned :: "runtime \<Rightarrow> body \<Rightarrow> product \<Rightarrow> product" where
  "textFieldsAssigned rt b p =
     p\<lparr>name := (if truthy (b_name b) then trim (toString (b_name b)) else name p),
       price := (if b_price b \<noteq> JUndefined then parseFloat (b_price b) else price p),
       description :=
         (if b_description b \<noteq> JUndefined then
            (if castFails (b_description b) then description p
             else castString (b_description b))
          else description p),
       classifications :=
         (if b_classifications b \<noteq> JUndefined then trim (toString (b_classifications b))
          else classifications p),
       status :=
         (if b_status b \<noteq> JUndefined then
            (if castFails (b_status b) then status p else castString (b_status b))
          else status p),
       statusNote :=
         (if b_statusNote b \<noteq> JUndefined then Some (trim (toString (b_statusNote b)))
          else statusNote p),
       expectedArrival :=
         (if b_expectedArrival b \<noteq> JUndefined then
            (if truthy (b_expectedArrival b)
             then Some (newDate rt (b_expectedArrival b)) else None)
          else expectedArrival p),
       castErrors :=
         castErrors p @
         (if castFails (b_description b) then [''description''] else []) @
         (if castFails (b_status b) then [''status''] else [])\<rparr>"

definition statusFieldsAssigned :: "runtime \<Rightarrow> body \<Rightarrow> product \<Rightarrow> product" where
  "statusFieldsAssigned rt b p =
     p\<lparr>status :=
         (if b_status b \<noteq> JUndefined then
            (if castFails (b_status b) then status p else castString (b_status b))
          else status p),
       statusNote :=
         (if b_statusNote b \<noteq> JUndefined then Some (trim (toString (b_statusNote b)))
          else statusNote p),
       expectedArrival :=
         (if b_expectedArrival b \<noteq> JUndefined then
            (if truthy (b_expectedArrival b)
             then Some (newDate rt (b_expectedArrival b)) else None)
          else expectedArrival p),
       castErrors := castErrors p @ (if castFails (b_status b) then [''status''] else [])\<rparr>"

definition imagesAssigned :: "files \<Rightarrow> product \<Rightarrow> product" where
  "imagesAssigned fs p =
     (let p2 = (case f_mainImage fs of
                  None \<Rightarrow> p
                | Some [] \<Rightarrow> p
                | Some (mainImageFile # rest) \<Rightarrow>
                    p\<lparr>mainImage := path mainImageFile,
                      mainImagePublicId := filename mainImageFile\<rparr>)
      in case f_otherPhotos fs of
           None \<Rightarrow> p2
         | Some otherPhotosFiles \<Rightarrow>
             p2\<lparr>otherPhotos := map path otherPhotosFiles,
                otherPhotosPublicIds := map filename otherPhotosFiles\<rparr>)"

definition oldImagesDestroyed :: "files \<Rightarrow> product \<Rightarrow> world \<Rightarrow> world" where
  "oldImagesDestroyed fs p w =
     (let w1 = (case f_mainImage fs of
                  None \<Rightarrow> w
                | Some l \<Rightarrow> safeCloudinaryDestroy (mainImagePublicId p) w)
      in case f_otherPhotos fs of
           None \<Rightarrow> w1
         | Some l \<Rightarrow> fold safeCloudinaryDestroy (otherPhotosPublicIds p) w1)"

text \<open>The document \<^verbatim>\<open>POST /products/upload\<close> hands to \<^verbatim>\<open>save\<close>.\<close>

definition newProduct :: "runtime \<Rightarrow> body \<Rightarrow> uploadedFile \<Rightarrow> uploadedFile list \<Rightarrow> product" where
  "newProduct rt b mainImageFile otherPhotosFiles =
     \<lparr> name = trim (toString (b_name b)),
       price = parseFloat (b_price b),
       mainImage = path mainImageFile,
       mainImagePublicId = filename mainImageFile,
       otherPhotos = map path otherPhotosFiles,
       otherPhotosPublicIds = map filename otherPhotosFiles,
       description = castString (orEmpty (b_description b)),
       classifications =
         (if truthy (b_classifications b) then trim (toString (b_classifications b)) else []),
       status =
         (if truthy (b_status b) then
            (if castFails (b_status b) then Some ''available'' else castString (b_status b))
          else Some ''available''),
       statusNote =
         (if truthy (b_statusNote b) then Some (trim (toString (b_statusNote b))) else None),
       expectedArrival =
         (if truthy (b_expectedArrival b) then Some (newDate rt (b_expectedArrival b))
          else None),
       uploadDate = now rt,
       castErrors =
         (if castFails (orEmpty (b_description b)) then [''description''] else []) @
         (if truthy (b_status b) then (if castFails (b_status b) then [''status''] else [])
          else []) \<rparr>"

section \<open>Lemmas about the mapper and the assignments\<close>

lemma findById_found:
  "castObjectId rt pid = Some oid \<Longrightarrow> products w oid = Some p \<Longrightarrow>
   findById rt pid w = Continue (Some (oid, p))"
  by (simp add: findById_def)

lemma findById_missing:
  "castObjectId rt pid = Some oid \<Longrightarrow> products w oid = None \<Longrightarrow>
   findById rt pid w = Continue None"
  by (simp add: findById_def)

lemma findById_malformed:
  "castObjectId rt pid = None \<Longrightarrow> findById rt pid w = Throw CastError"
  by (simp add: findById_def)

lemma exampleRuntime_lampId: "castObjectId exampleRuntime lampId = Some lampId"
  by (simp add: exampleRuntime_def lampId_def isHexDigit_def)

lemma parseFloat_abc: "parseFloat (JStr ''abc'') = NaN"
  by (simp add: parseFloat_def strUnsignedDecimalLiteral_def isDigit_def isWhiteSpace_def)

section \<open>The handlers in closed form\<close>

lemma products_safeCloudinaryDestroy [simp]:
  "products (safeCloudinaryDestroy x w) = products w"
  by (simp add: safeCloudinaryDestroy_def)

lemma products_fold_destroy [simp]:
  "products (fold safeCloudinaryDestroy xs w) = products w"
  by (induction xs arbitrary: w) simp_all

lemma setName_eq:
  "setName b p =
   (if nameTrimThrows b then Throw TypeError
    else Continue (p\<lparr>name := (if truthy (b_name b) then trim (toString (b_name b))
                               else name p)\<rparr>))"
  by (cases "b_name b") (simp_all add: setName_def nameTrimThrows_def)

lemma setPrice_eq:
  "setPrice b p =
   (if b_price b \<noteq> JUndefined \<and> convThrows (b_price b) then Throw TypeError
    else if b_price b \<noteq> JUndefined \<and> isNaN (parseFloat (b_price b))
    then Return (Response 400 (Error ''Invalid price value''))
    else Continue (p\<lparr>price := (if b_price b \<noteq> JUndefined then parseFloat (b_price b)
                                else price p)\<rparr>))"
  by (simp add: setPrice_def js_parseFloat_def)

lemma castFails_JUndefined: "v = JUndefined \<Longrightarrow> \<not> castFails v"
  by simp

lemma setDescription_eq:
  "setDescription b p =
   Continue (p\<lparr>description :=
       (if b_description b \<noteq> JUndefined then
          (if castFails (b_description b) then description p else castString (b_description b))
        else description p),
     castErrors :=
       castErrors p @ (if castFails (b_description b) then [''description''] else [])\<rparr>)"
  by (cases "b_description b") (simp_all add: setDescription_def)

lemma setClassifications_eq:
  "setClassifications b p =
   (if trimThrows (b_classifications b) then Throw TypeError
    else Continue (p\<lparr>classifications :=
      (if b_classifications b \<noteq> JUndefined then trim (toString (b_classifications b))
       else classifications p)\<rparr>))"
  by (cases "b_classifications b") (simp_all add: setClassifications_def)

lemma setStatus_eq:
  "setStatus b p =
   Continue (p\<lparr>status :=
       (if b_status b \<noteq> JUndefined then
          (if castFails (b_status b) then status p else castString (b_status b))
        else status p),
     castErrors := castErrors p @ (if castFails (b_status b) then [''status''] else [])\<rparr>)"
  by (cases "b_status b") (simp_all add: setStatus_def)

lemma setStatusNote_eq:
  "setStatusNote b p =
   (if trimThrows (b_statusNote b) then Throw TypeError
    else Continue (p\<lparr>statusNote :=
      (if b_statusNote b \<noteq> JUndefined then Some (trim (toString (b_statusNote b)))
       else statusNote p)\<rparr>))"
  by (cases "b_statusNote b") (simp_all add: setStatusNote_def)

lemma truthy_defined: "truthy v \<Longrightarrow> v \<noteq> JUndefined"
  by (cases v) simp_all

lemma setExpectedArrival_eq:
  "setExpectedArrival rt b p =
   (if newDateThrows b then Throw TypeError
    else Continue (p\<lparr>expectedArrival :=
      (if b_expectedArrival b \<noteq> JUndefined then
         (if truthy (b_expectedArrival b)
          then Some (newDate rt (b_expectedArrival b)) else None)
       else expectedArrival p)\<rparr>))"
  by (auto simp: setExpectedArrival_def js_newDate_def newDateThrows_def dest: truthy_defined)

lemma setTextFields_eq:
  "setTextFields rt b p =
   (if nameTrimThrows b then Throw TypeError
    else if b_price b \<noteq> JUndefined \<and> convThrows (b_price b) then Throw TypeError
    else if b_price b \<noteq> JUndefined \<and> isNaN (parseFloat (b_price b))
    then Return (Response 400 (Error ''Invalid price value''))
    else if trimThrows (b_classifications b) \<or> trimThrows (b_statusNote b) \<or> newDateThrows b
    then Throw TypeError
    else Continue (textFieldsAssigned rt b p))"
proof (cases "nameTrimThrows b")
  case True
  then show ?thesis
    by (simp add: setTextFields_def setName_eq)
next
  case nm: False
  have sn: "setName b q =
      Continue (q\<lparr>name := (if truthy (b_name b) then trim (toString (b_name b))
                              else name q)\<rparr>)" for q :: product
    using nm by (simp only: setName_eq if_False)
  show ?thesis
  proof (cases "b_price b \<noteq> JUndefined \<and> convThrows (b_price b)")
    case True
    then show ?thesis
      using nm by (simp add: setTextFields_def sn setPrice_eq)
  next
    case pc: False
    show ?thesis
    proof (cases "b_price b \<noteq> JUndefined \<and> isNaN (parseFloat (b_price b))")
      case True
      then show ?thesis
        using nm pc by (simp add: setTextFields_def sn setPrice_eq)
    next
      case nan: False
      have pr: "setPrice b q =
          Continue (q\<lparr>price := (if b_price b \<noteq> JUndefined then parseFloat (b_price b)
                                   else price q)\<rparr>)" for q :: product
        using pc nan by (simp only: setPrice_eq if_False)
      show ?thesis
      proof (cases "trimThrows (b_classifications b)")
        case True
        then show ?thesis
          by (simp only: if_not_P [OF nm] if_not_P [OF pc] if_not_P [OF nan])
             (simp add: setTextFields_def sn pr setDescription_eq setClassifications_eq
                split del: if_split)
      next
        case cl: False
        show ?thesis
        proof (cases "trimThrows (b_statusNote b)")
          case True
          then show ?thesis using cl
            by (simp only: if_not_P [OF nm] if_not_P [OF pc] if_not_P [OF nan])
               (simp add: setTextFields_def sn pr setDescription_eq setClassifications_eq
                  setStatus_eq setStatusNote_eq split del: if_split)
        next
          case no: False
          show ?thesis
          proof (cases "newDateThrows b")
            case True
            then show ?thesis using cl no
              by (simp only: if_not_P [OF nm] if_not_P [OF pc] if_not_P [OF nan])
                 (simp add: setTextFields_def sn pr setDescription_eq setClassifications_eq
                    setStatus_eq setStatusNote_eq setExpectedArrival_eq split del: if_split)
          next
            case False
            then show ?thesis using cl no
              by (simp only: if_not_P [OF nm] if_not_P [OF pc] if_not_P [OF nan])
                 (simp add: setTextFields_def sn pr setDescription_eq setClassifications_eq
                    setStatus_eq setStatusNote_eq setExpectedArrival_eq textFieldsAssigned_def
                    split del: if_split cong: if_cong)
          qed
        qed
      qed
    qed
  qed
qed

lemma setStatusFields_eq:
  "andThen (setStatus b p) (\<lambda>p. andThen (setStatusNote b p) (\<lambda>p. setExpectedArrival rt b p)) =
   (if trimThrows (b_statusNote b) \<or> newDateThrows b then Throw TypeError
    else Continue (statusFieldsAssigned rt b p))"
  by (cases "trimThrows (b_statusNote b)"; cases "newDateThrows b")
     (simp_all add: setStatus_eq setStatusNote_eq setExpectedArrival_eq statusFieldsAssigned_def
        split del: if_split cong: if_cong)

lemma textFieldsAssigned_images [simp]:
  "mainImage (textFieldsAssigned rt b p) = mainImage p"
  "mainImagePublicId (textFieldsAssigned rt b p) = mainImagePublicId p"
  "otherPhotos (textFieldsAssigned rt b p) = otherPhotos p"
  "otherPhotosPublicIds (textFieldsAssigned rt b p) = otherPhotosPublicIds p"
  "uploadDate (textFieldsAssigned rt b p) = uploadDate p"
  by (simp_all add: textFieldsAssigned_def)

lemma put_found_eq:
  assumes "castObjectId rt pid = Some oid" and "products w oid = Some p"
  shows "put_products_id rt pid b fs w =
    (if nameTrimThrows b then
       (Response 500 (Error ''Failed to update product''), w)
     else if b_price b \<noteq> JUndefined \<and> convThrows (b_price b) then
       (Response 500 (Error ''Failed to update product''), w)
     else if b_price b \<noteq> JUndefined \<and> isNaN (parseFloat (b_price b)) then
       (Response 400 (Error ''Invalid price value''), w)
     else if trimThrows (b_classifications b) \<or> trimThrows (b_statusNote b) \<or> newDateThrows b
     then
       (Response 500 (Error ''Failed to update product''), w)
     else if f_mainImage fs = Some [] then
       (Response 500 (Error ''Failed to update product''),
        safeCloudinaryDestroy (mainImagePublicId p) w)
     else if invalidPaths (imagesAssigned fs (textFieldsAssigned rt b p)) = [] then
       (Response 200 (MessageDoc ''Product updated successfully''
          (oid, imagesAssigned fs (textFieldsAssigned rt b p))),
        (oldImagesDestroyed fs p w)
          \<lparr>products := (products w)(oid \<mapsto> imagesAssigned fs (textFieldsAssigned rt b p))\<rparr>)
     else (Response 500 (Error ''Failed to update product''), oldImagesDestroyed fs p w))"
  using assms
  by (simp add: put_products_id_def put_products_id_try_def findById_found setTextFields_eq
      catch_def setMainImage_def setOtherPhotos_def save_def imagesAssigned_def
      oldImagesDestroyed_def
      split: option.split list.split)

lemma patch_found_eq:
  assumes "castObjectId rt pid = Some oid" and "products w oid = Some p"
  shows "patch_products_id_status rt pid b w =
    (if truthy (b_status b) \<and> \<not> arrayIncludes validStatuses (b_status b) then
       (Response 400 (ErrorValidStatuses ''Invalid status'' validStatuses), w)
     else if trimThrows (b_statusNote b) \<or> newDateThrows b then
       (Response 500 (Error ''Failed to update product status''), w)
     else if invalidPaths (statusFieldsAssigned rt b p) = [] then
       (Response 200 (MessageDoc ''Product status updated successfully''
          (oid, statusFieldsAssigned rt b p)),
        w\<lparr>products := (products w)(oid \<mapsto> statusFieldsAssigned rt b p)\<rparr>)
     else (Response 500 (Error ''Failed to update product status''), w))"
  using assms
  by (simp add: patch_products_id_status_def patch_products_id_status_try_def findById_found
      setStatusFields_eq catch_def save_def)

lemma delete_found_eq:
  assumes "castObjectId rt pid = Some oid" and "products w oid = Some p"
  shows "delete_products_id rt pid w =
    (Response 200 (Message ''Product deleted successfully''),
     (fold safeCloudinaryDestroy (otherPhotosPublicIds p)
        (safeCloudinaryDestroy (mainImagePublicId p) w))
       \<lparr>products := (products w)(oid := None)\<rparr>)"
  using assms
  by (simp add: delete_products_id_def delete_products_id_try_def findById_found
      findByIdAndDelete_def catch_def Let_def)

lemma falsy_truthy: "falsy v = (\<not> truthy v)"
  by (cases v) simp_all

lemma productData_eq:
  "truthy (b_name b) \<Longrightarrow> \<not> convThrows (b_price b) \<Longrightarrow>
   productData rt b f others =
     (if createThrows b then Throw TypeError else Continue (newProduct rt b f others))"
  by (cases "b_name b"; cases "b_classifications b"; cases "b_statusNote b")
     (simp_all add: productData_def newProduct_def createThrows_def nameTrimThrows_def
        newDateThrows_def js_parseFloat_def js_newDate_def)

lemma post_eq:
  "post_products_upload rt b fs w =
    (if falsy (b_name b) then (Response 400 (Error ''Product name is required''), w)
     else if falsy (b_price b) then
       (Response 400 (Error ''Valid price is required''), w)
     else if convThrows (b_price b) then
       (Response 500 (ErrorDetails ''Failed to create product'' TypeError), w)
     else if isNaN (parseFloat (b_price b)) then
       (Response 400 (Error ''Valid price is required''), w)
     else
       (case f_mainImage fs of
          None \<Rightarrow> (Response 400 (Error ''Main image is required''), w)
        | Some [] \<Rightarrow> (Response 500 (ErrorDetails ''Failed to create product'' TypeError), w)
        | Some (mainImageFile # rest) \<Rightarrow>
            (let doc = newProduct rt b mainImageFile
                         (case f_otherPhotos fs of None \<Rightarrow> [] | Some l \<Rightarrow> l)
             in if createThrows b then
                  (Response 500 (ErrorDetails ''Failed to create product'' TypeError), w)
                else if invalidPaths doc \<noteq> [] then
                  (Response 500 (ErrorDetails ''Failed to create product''
                     (ValidationError (invalidPaths doc))), w)
                else if products w (freshId rt) \<noteq> None then
                  (Response 500 (ErrorDetails ''Failed to create product'' DuplicateKey), w)
                else
                  (Response 201 (MessageDoc ''Product created successfully!'' (freshId rt, doc)),
                   w\<lparr>products := (products w)(freshId rt \<mapsto> doc)\<rparr>))))"
  by (auto simp: post_products_upload_def post_products_upload_try_def catch_def falsy_truthy
      js_parseFloat_def productData_eq saveNew_def Let_def split: option.split list.split)


section \<open>Deleting a product\<close>

text \<open>
  Claim C9. \<^verbatim>\<open>DELETE /products/:id\<close> with the identifier of no stored product is
  answered with 404 and changes nothing. With the identifier of a stored product it is
  answered with 200 and removes the document, and the same request sent again is
  answered with 404 and changes nothing more.
\<close>

theorem delete_not_found_then_gone:
  assumes "castObjectId rt pid = Some oid"
  shows "(products w oid = None \<longrightarrow>
            delete_products_id rt pid w = (Response 404 (Error ''Product not found''), w))
       \<and> (products w oid \<noteq> None \<longrightarrow>
            fst (delete_products_id rt pid w) =
              Response 200 (Message ''Product deleted successfully'')
          \<and> products (snd (delete_products_id rt pid w)) = (products w)(oid := None)
          \<and> delete_products_id rt pid (snd (delete_products_id rt pid w)) =
              (Response 404 (Error ''Product not found''), snd (delete_products_id rt pid w)))"
proof (intro conjI impI)
  assume "products w oid = None"
  with assms show "delete_products_id rt pid w = (Response 404 (Error ''Product not found''), w)"
    by (simp add: delete_products_id_def delete_products_id_try_def findById_missing catch_def)
next
  assume "products w oid \<noteq> None"
  then obtain p where p: "products w oid = Some p" by blast
  note eq = delete_found_eq [OF assms p]
  show "fst (delete_products_id rt pid w) =
      Response 200 (Message ''Product deleted successfully'')"
    by (simp add: eq)
  show "products (snd (delete_products_id rt pid w)) = (products w)(oid := None)"
    by (simp add: eq)
  then have "products (snd (delete_products_id rt pid w)) oid = None"
    by simp
  with assms show "delete_products_id rt pid (snd (delete_products_id rt pid w)) =
      (Response 404 (Error ''Product not found''), snd (delete_products_id rt pid w))"
    by (simp add: delete_products_id_def [of rt pid "snd (delete_products_id rt pid w)"]
        delete_products_id_try_def findById_missing catch_def)
qed

theorem delete_not_found_then_gone_witness:
  "castObjectId exampleRuntime lampId = Some lampId
   \<and> products lampWorld lampId \<noteq> None
   \<and> fst (delete_products_id exampleRuntime lampId lampWorld) =
        Response 200 (Message ''Product deleted successfully'')
   \<and> products (snd (delete_products_id exampleRuntime lampId lampWorld)) lampId = None
   \<and> fst (delete_products_id exampleRuntime lampId
            (snd (delete_products_id exampleRuntime lampId lampWorld))) =
        Response 404 (Error ''Product not found'')
   \<and> delete_products_id exampleRuntime lampId emptyWorld =
        (Response 404 (Error ''Product not found''), emptyWorld)"
  using delete_not_found_then_gone [OF exampleRuntime_lampId, of lampWorld]
    delete_not_found_then_gone [OF exampleRuntime_lampId, of emptyWorld]
  by (simp add: exampleRuntime_lampId lampWorld_def emptyWorld_def)

section \<open>Identifiers that are not well formed\<close>

lemma malformed_id_500:
  assumes "castObjectId rt pid = None"
  shows "get_products_id rt pid w = (Response 500 (Error ''Failed to fetch product''), w)"
    and "put_products_id rt pid b fs w = (Response 500 (Error ''Failed to update product''), w)"
    and "patch_products_id_status rt pid b w =
           (Response 500 (Error ''Failed to update product status''), w)"
    and "delete_products_id rt pid w = (Response 500 (Error ''Failed to delete product''), w)"
  using assms
  by (simp_all add: get_products_id_def get_products_id_try_def put_products_id_def
      put_products_id_try_def patch_products_id_status_def patch_products_id_status_try_def
      delete_products_id_def delete_products_id_try_def findById_malformed catch_def)

lemma missing_id_404:
  assumes "castObjectId rt pid = Some oid" and "products w oid = None"
  shows "get_products_id rt pid w = (Response 404 (Error ''Product not found''), w)"
    and "put_products_id rt pid b fs w = (Response 404 (Error ''Product not found''), w)"
    and "patch_products_id_status rt pid b w = (Response 404 (Error ''Product not found''), w)"
    and "delete_products_id rt pid w = (Response 404 (Error ''Product not found''), w)"
  using assms
  by (simp_all add: get_products_id_def get_products_id_try_def put_products_id_def
      put_products_id_try_def patch_products_id_status_def patch_products_id_status_try_def
      delete_products_id_def delete_products_id_try_def findById_missing catch_def)

lemma found_id_not_404:
  assumes "castObjectId rt pid = Some oid" and "products w oid = Some p"
  shows "statusCode (fst (get_products_id rt pid w)) \<noteq> 404"
    and "statusCode (fst (put_products_id rt pid b fs w)) \<noteq> 404"
    and "statusCode (fst (patch_products_id_status rt pid b w)) \<noteq> 404"
    and "statusCode (fst (delete_products_id rt pid w)) \<noteq> 404"
proof -
  show "statusCode (fst (get_products_id rt pid w)) \<noteq> 404"
    using assms
    by (simp add: get_products_id_def get_products_id_try_def findById_found catch_def)
  show "statusCode (fst (put_products_id rt pid b fs w)) \<noteq> 404"
    by (simp add: put_found_eq [OF assms])
  show "statusCode (fst (patch_products_id_status rt pid b w)) \<noteq> 404"
    by (simp add: patch_found_eq [OF assms])
  show "statusCode (fst (delete_products_id rt pid w)) \<noteq> 404"
    by (simp add: delete_found_eq [OF assms])
qed

text \<open>
  Claim C10. On the four routes that take \<^verbatim>\<open>:id\<close>, the response has status 404 exactly
  when the id is cast to a store identifier under which no product is stored. When the
  id cannot be cast, the lookup throws and each handler answers with its own 500
  envelope, leaving everything as it was.
\<close>

theorem not_found_only_for_wellformed_ids:
  "((statusCode (fst (get_products_id rt pid w)) = 404) =
      (\<exists>oid. castObjectId rt pid = Some oid \<and> products w oid = None))
 \<and> ((statusCode (fst (put_products_id rt pid b fs w)) = 404) =
      (\<exists>oid. castObjectId rt pid = Some oid \<and> products w oid = None))
 \<and> ((statusCode (fst (patch_products_id_status rt pid b w)) = 404) =
      (\<exists>oid. castObjectId rt pid = Some oid \<and> products w oid = None))
 \<and> ((statusCode (fst (delete_products_id rt pid w)) = 404) =
      (\<exists>oid. castObjectId rt pid = Some oid \<and> products w oid = None))
 \<and> (castObjectId rt pid = None \<longrightarrow>
        get_products_id rt pid w = (Response 500 (Error ''Failed to fetch product''), w)
      \<and> put_products_id rt pid b fs w = (Response 500 (Error ''Failed to update product''), w)
      \<and> patch_products_id_status rt pid b w =
          (Response 500 (Error ''Failed to update product status''), w)
      \<and> delete_products_id rt pid w = (Response 500 (Error ''Failed to delete product''), w))"
proof (cases "castObjectId rt pid")
  case None
  then show ?thesis
    by (simp add: malformed_id_500)
next
  case (Some oid)
  show ?thesis
  proof (cases "products w oid")
    case None
    with Some show ?thesis
      by (simp add: missing_id_404)
  next
    case (Some p)
    with \<open>castObjectId rt pid = Some oid\<close> show ?thesis
      by (simp add: found_id_not_404)
  qed
qed

theorem not_found_only_for_wellformed_ids_witness:
  "castObjectId exampleRuntime ''not-an-id'' = None
   \<and> get_products_id exampleRuntime ''not-an-id'' lampWorld =
        (Response 500 (Error ''Failed to fetch product''), lampWorld)
   \<and> put_products_id exampleRuntime ''not-an-id'' emptyBody noFiles lampWorld =
        (Response 500 (Error ''Failed to update product''), lampWorld)
   \<and> patch_products_id_status exampleRuntime ''not-an-id'' emptyBody lampWorld =
        (Response 500 (Error ''Failed to update product status''), lampWorld)
   \<and> delete_products_id exampleRuntime ''not-an-id'' lampWorld =
        (Response 500 (Error ''Failed to delete product''), lampWorld)
   \<and> statusCode (fst (get_products_id exampleRuntime lampId emptyWorld)) = 404
   \<and> statusCode (fst (get_products_id exampleRuntime lampId lampWorld)) \<noteq> 404"
  using not_found_only_for_wellformed_ids [of exampleRuntime "''not-an-id''" lampWorld emptyBody noFiles]
    not_found_only_for_wellformed_ids [of exampleRuntime lampId emptyWorld emptyBody noFiles]
    not_found_only_for_wellformed_ids [of exampleRuntime lampId lampWorld emptyBody noFiles]
  by (simp add: exampleRuntime_lampId lampWorld_def emptyWorld_def)
     (simp add: exampleRuntime_def)

section \<open>The frame of the status update\<close>

lemma statusFieldsAssigned_frame [simp]:
  "name (statusFieldsAssigned rt b p) = name p"
  "price (statusFieldsAssigned rt b p) = price p"
  "mainImage (statusFieldsAssigned rt b p) = mainImage p"
  "mainImagePublicId (statusFieldsAssigned rt b p) = mainImagePublicId p"
  "otherPhotos (statusFieldsAssigned rt b p) = otherPhotos p"
  "otherPhotosPublicIds (statusFieldsAssigned rt b p) = otherPhotosPublicIds p"
  "description (statusFieldsAssigned rt b p) = description p"
  "classifications (statusFieldsAssigned rt b p) = classifications p"
  "uploadDate (statusFieldsAssigned rt b p) = uploadDate p"
  by (simp_all add: statusFieldsAssigned_def)

lemma invalidPaths_castErrors: "invalidPaths q = [] \<Longrightarrow> castErrors q = []"
  by (simp add: invalidPaths_def)

lemma statusFieldsAssigned_castErrors:
  "castErrors (statusFieldsAssigned rt b p) =
     castErrors p @ (if castFails (b_status b) then [''status''] else [])"
  by (simp add: statusFieldsAssigned_def)

lemma statusFieldsAssigned_valid_cast:
  "invalidPaths (statusFieldsAssigned rt b p) = [] \<Longrightarrow> \<not> castFails (b_status b)"
  using invalidPaths_castErrors [of "statusFieldsAssigned rt b p"]
  by (simp add: statusFieldsAssigned_castErrors split: if_splits)

lemma statusFieldsAssigned_status:
  "status (statusFieldsAssigned rt b p) =
     (if b_status b \<noteq> JUndefined then
        (if castFails (b_status b) then status p else castString (b_status b))
      else status p)"
  "statusNote (statusFieldsAssigned rt b p) =
     (if b_statusNote b \<noteq> JUndefined then Some (trim (toString (b_statusNote b)))
      else statusNote p)"
  "expectedArrival (statusFieldsAssigned rt b p) =
     (if b_expectedArrival b \<noteq> JUndefined then
        (if truthy (b_expectedArrival b)
         then Some (newDate rt (b_expectedArrival b)) else None)
      else expectedArrival p)"
  by (simp_all add: statusFieldsAssigned_def)

lemma patch_found_outcome:
  assumes "castObjectId rt pid = Some oid" and "products w oid = Some p"
  shows "(patch_products_id_status rt pid b w =
            (Response 200 (MessageDoc ''Product status updated successfully''
               (oid, statusFieldsAssigned rt b p)),
             w\<lparr>products := (products w)(oid \<mapsto> statusFieldsAssigned rt b p)\<rparr>)
          \<and> invalidPaths (statusFieldsAssigned rt b p) = [])
       \<or> (statusCode (fst (patch_products_id_status rt pid b w)) \<noteq> 200
          \<and> snd (patch_products_id_status rt pid b w) = w)"
  by (simp add: patch_found_eq [OF assms])

text \<open>
  Claim C7. For an existing product and every request body, what
  \<^verbatim>\<open>PATCH /products/:id/status\<close> leaves in the store differs from what was there at
  most in the status, the status note and the expected arrival of that one product, and
  each of the three is unchanged when its field is absent from the body: a body with
  only a status note leaves the status and the expected arrival as they were. The name,
  the price, the images, the description, the classifications and the upload date are
  unchanged, no other product is touched and no asset is destroyed. When the response
  is 200, every field that is present has been overwritten.
\<close>

theorem patch_status_frame:
  assumes "castObjectId rt pid = Some oid" and "products w oid = Some p"
  shows "\<exists>p'. products (snd (patch_products_id_status rt pid b w)) = (products w)(oid \<mapsto> p')
      \<and> destroyed (snd (patch_products_id_status rt pid b w)) = destroyed w
      \<and> name p' = name p \<and> price p' = price p
      \<and> mainImage p' = mainImage p \<and> mainImagePublicId p' = mainImagePublicId p
      \<and> otherPhotos p' = otherPhotos p \<and> otherPhotosPublicIds p' = otherPhotosPublicIds p
      \<and> description p' = description p \<and> classifications p' = classifications p
      \<and> uploadDate p' = uploadDate p
      \<and> (b_status b = JUndefined \<longrightarrow> status p' = status p)
      \<and> (b_statusNote b = JUndefined \<longrightarrow> statusNote p' = statusNote p)
      \<and> (b_expectedArrival b = JUndefined \<longrightarrow> expectedArrival p' = expectedArrival p)
      \<and> (statusCode (fst (patch_products_id_status rt pid b w)) = 200 \<longrightarrow>
            fst (patch_products_id_status rt pid b w) =
              Response 200 (MessageDoc ''Product status updated successfully'' (oid, p'))
          \<and> (b_status b \<noteq> JUndefined \<longrightarrow> status p' = castString (b_status b))
          \<and> (b_statusNote b \<noteq> JUndefined \<longrightarrow>
                statusNote p' = Some (trim (toString (b_statusNote b))))
          \<and> (b_expectedArrival b \<noteq> JUndefined \<longrightarrow>
                expectedArrival p' =
                  (if truthy (b_expectedArrival b)
                   then Some (newDate rt (b_expectedArrival b)) else None)))"
  using patch_found_outcome [OF assms, of b]
proof
  assume "patch_products_id_status rt pid b w =
            (Response 200 (MessageDoc ''Product status updated successfully''
               (oid, statusFieldsAssigned rt b p)),
             w\<lparr>products := (products w)(oid \<mapsto> statusFieldsAssigned rt b p)\<rparr>)
          \<and> invalidPaths (statusFieldsAssigned rt b p) = []"
  then have ok: "patch_products_id_status rt pid b w =
            (Response 200 (MessageDoc ''Product status updated successfully''
               (oid, statusFieldsAssigned rt b p)),
             w\<lparr>products := (products w)(oid \<mapsto> statusFieldsAssigned rt b p)\<rparr>)"
    and cast: "\<not> castFails (b_status b)"
    by (blast dest: statusFieldsAssigned_valid_cast)+
  show ?thesis
    by (rule exI [of _ "statusFieldsAssigned rt b p"])
       (simp add: ok cast statusFieldsAssigned_status)
next
  assume failed: "statusCode (fst (patch_products_id_status rt pid b w)) \<noteq> 200
          \<and> snd (patch_products_id_status rt pid b w) = w"
  show ?thesis
    by (rule exI [of _ p]) (simp add: failed assms map_upd_triv)
qed

lemma trim_back_soon: "trim ''  back soon '' = ''back soon''"
  by (simp add: trim_def isWhiteSpace_def)

theorem patch_status_frame_witness:
  "castObjectId exampleRuntime lampId = Some lampId \<and> products lampWorld lampId = Some lamp
   \<and> (\<exists>p'. products (snd (patch_products_id_status exampleRuntime lampId
                (emptyBody\<lparr>b_statusNote := JStr ''  back soon ''\<rparr>) lampWorld)) lampId = Some p'
         \<and> fst (patch_products_id_status exampleRuntime lampId
                (emptyBody\<lparr>b_statusNote := JStr ''  back soon ''\<rparr>) lampWorld) =
              Response 200 (MessageDoc ''Product status updated successfully'' (lampId, p'))
         \<and> name p' = ''Lamp'' \<and> status p' = Some ''available'' \<and> expectedArrival p' = None
         \<and> statusNote p' = Some ''back soon'')"
proof -
  have found: "products lampWorld lampId = Some lamp"
    by (simp add: lampWorld_def)
  have ok: "statusCode (fst (patch_products_id_status exampleRuntime lampId
                (emptyBody\<lparr>b_statusNote := JStr ''  back soon ''\<rparr>) lampWorld)) = 200"
    by (simp add: patch_found_eq [OF exampleRuntime_lampId found] emptyBody_def
        statusFieldsAssigned_def invalidPaths_def lamp_def validStatuses_def newDateThrows_def)
  from patch_status_frame [OF exampleRuntime_lampId found,
      of "emptyBody\<lparr>b_statusNote := JStr ''  back soon ''\<rparr>"]
  obtain p' where p': "products (snd (patch_products_id_status exampleRuntime lampId
                (emptyBody\<lparr>b_statusNote := JStr ''  back soon ''\<rparr>) lampWorld)) =
            (products lampWorld)(lampId \<mapsto> p')"
       "name p' = name lamp"
       "b_status (emptyBody\<lparr>b_statusNote := JStr ''  back soon ''\<rparr>) = JUndefined
          \<longrightarrow> status p' = status lamp"
       "b_expectedArrival (emptyBody\<lparr>b_statusNote := JStr ''  back soon ''\<rparr>) = JUndefined
          \<longrightarrow> expectedArrival p' = expectedArrival lamp"
       "statusCode (fst (patch_products_id_status exampleRuntime lampId
                (emptyBody\<lparr>b_statusNote := JStr ''  back soon ''\<rparr>) lampWorld)) = 200 \<longrightarrow>
            fst (patch_products_id_status exampleRuntime lampId
                (emptyBody\<lparr>b_statusNote := JStr ''  back soon ''\<rparr>) lampWorld) =
              Response 200 (MessageDoc ''Product status updated successfully'' (lampId, p'))
          \<and> (b_statusNote (emptyBody\<lparr>b_statusNote := JStr ''  back soon ''\<rparr>) \<noteq> JUndefined \<longrightarrow>
                statusNote p' = Some (trim (toString
                   (b_statusNote (emptyBody\<lparr>b_statusNote := JStr ''  back soon ''\<rparr>)))))"
    by blast
  show ?thesis
    using p' ok
    by (simp add: exampleRuntime_lampId found emptyBody_def lamp_def trim_back_soon)
qed

section \<open>The photo arrays\<close>

lemma worldAligned_same_products:
  "worldAligned w \<Longrightarrow> products w' = products w \<Longrightarrow> worldAligned w'"
  by (simp add: worldAligned_def)

lemma worldAligned_update:
  "worldAligned w \<Longrightarrow> photosAligned q \<Longrightarrow> products w' = (products w)(oid \<mapsto> q) \<Longrightarrow>
   worldAligned w'"
  by (simp add: worldAligned_def)

lemma worldAligned_remove:
  "worldAligned w \<Longrightarrow> products w' = (products w)(oid := None) \<Longrightarrow> worldAligned w'"
  by (simp add: worldAligned_def)

lemma worldAligned_lookup:
  "worldAligned w \<Longrightarrow> products w oid = Some p \<Longrightarrow> photosAligned p"
  by (auto simp: worldAligned_def)

lemma photosAligned_imagesAssigned:
  "photosAligned p \<Longrightarrow> photosAligned (imagesAssigned fs p)"
  by (simp add: imagesAssigned_def photosAligned_def Let_def split: option.split list.split)

lemma photosAligned_textFieldsAssigned [simp]:
  "photosAligned (textFieldsAssigned rt b p) = photosAligned p"
  by (simp add: photosAligned_def)

lemma photosAligned_statusFieldsAssigned [simp]:
  "photosAligned (statusFieldsAssigned rt b p) = photosAligned p"
  by (simp add: photosAligned_def)

lemma photosAligned_newProduct [simp]:
  "photosAligned (newProduct rt b f others)"
  by (simp add: photosAligned_def newProduct_def)

lemma products_oldImagesDestroyed [simp]:
  "products (oldImagesDestroyed fs p w) = products w"
  by (simp add: oldImagesDestroyed_def Let_def split: option.split)

lemma post_outcome:
  "(\<exists>f rest. f_mainImage fs = Some (f # rest)
      \<and> post_products_upload rt b fs w =
          (Response 201 (MessageDoc ''Product created successfully!''
             (freshId rt,
              newProduct rt b f (case f_otherPhotos fs of None \<Rightarrow> [] | Some l \<Rightarrow> l))),
           w\<lparr>products := (products w)(freshId rt \<mapsto>
              newProduct rt b f (case f_otherPhotos fs of None \<Rightarrow> [] | Some l \<Rightarrow> l))\<rparr>))
   \<or> (statusCode (fst (post_products_upload rt b fs w)) \<noteq> 201
      \<and> snd (post_products_upload rt b fs w) = w)"
proof (cases "f_mainImage fs")
  case None
  then show ?thesis by (simp add: post_eq)
next
  case (Some l)
  then show ?thesis
    by (cases l) (simp_all add: post_eq Let_def)
qed

lemma put_found_outcome:
  assumes "castObjectId rt pid = Some oid" and "products w oid = Some p"
  shows "(put_products_id rt pid b fs w =
            (Response 200 (MessageDoc ''Product updated successfully''
               (oid, imagesAssigned fs (textFieldsAssigned rt b p))),
             (oldImagesDestroyed fs p w)
               \<lparr>products := (products w)(oid \<mapsto> imagesAssigned fs (textFieldsAssigned rt b p))\<rparr>)
          \<and> invalidPaths (imagesAssigned fs (textFieldsAssigned rt b p)) = [])
       \<or> (statusCode (fst (put_products_id rt pid b fs w)) \<noteq> 200
          \<and> products (snd (put_products_id rt pid b fs w)) = products w)"
  by (simp add: put_found_eq [OF assms])

lemma post_worldAligned:
  assumes "worldAligned w"
  shows "worldAligned (snd (post_products_upload rt b fs w))"
  using post_outcome [of fs rt b w]
proof (elim disjE exE conjE)
  fix f rest
  assume "post_products_upload rt b fs w =
          (Response 201 (MessageDoc ''Product created successfully!''
             (freshId rt,
              newProduct rt b f (case f_otherPhotos fs of None \<Rightarrow> [] | Some l \<Rightarrow> l))),
           w\<lparr>products := (products w)(freshId rt \<mapsto>
              newProduct rt b f (case f_otherPhotos fs of None \<Rightarrow> [] | Some l \<Rightarrow> l))\<rparr>)"
  then have "products (snd (post_products_upload rt b fs w)) =
      (products w)(freshId rt \<mapsto>
         newProduct rt b f (case f_otherPhotos fs of None \<Rightarrow> [] | Some l \<Rightarrow> l))"
    by simp
  with assms show ?thesis
    by (rule worldAligned_update [OF _ photosAligned_newProduct])
next
  assume "snd (post_products_upload rt b fs w) = w"
  with assms show ?thesis by simp
qed

lemma put_worldAligned:
  assumes "worldAligned w"
  shows "worldAligned (snd (put_products_id rt pid b fs w))"
proof (cases "castObjectId rt pid")
  case None
  with assms show ?thesis by (simp add: malformed_id_500)
next
  case (Some oid)
  show ?thesis
  proof (cases "products w oid")
    case None
    with Some assms show ?thesis by (simp add: missing_id_404)
  next
    case (Some p)
    have al: "photosAligned (imagesAssigned fs (textFieldsAssigned rt b p))"
      using worldAligned_lookup [OF assms Some] by (simp add: photosAligned_imagesAssigned)
    have "products (snd (put_products_id rt pid b fs w)) = products w
        \<or> products (snd (put_products_id rt pid b fs w)) =
            (products w)(oid \<mapsto> imagesAssigned fs (textFieldsAssigned rt b p))"
      using put_found_outcome [OF \<open>castObjectId rt pid = Some oid\<close> Some, of b fs] by auto
    with assms al show ?thesis
      by (blast intro: worldAligned_update worldAligned_same_products)
  qed
qed

lemma patch_worldAligned:
  assumes "worldAligned w"
  shows "worldAligned (snd (patch_products_id_status rt pid b w))"
proof (cases "castObjectId rt pid")
  case None
  with assms show ?thesis by (simp add: malformed_id_500)
next
  case (Some oid)
  show ?thesis
  proof (cases "products w oid")
    case None
    with Some assms show ?thesis by (simp add: missing_id_404)
  next
    case (Some p)
    have al: "photosAligned (statusFieldsAssigned rt b p)"
      using worldAligned_lookup [OF assms Some] by simp
    have "products (snd (patch_products_id_status rt pid b w)) = products w
        \<or> products (snd (patch_products_id_status rt pid b w)) =
            (products w)(oid \<mapsto> statusFieldsAssigned rt b p)"
      by (simp add: patch_found_eq [OF \<open>castObjectId rt pid = Some oid\<close> Some])
    with assms al show ?thesis
      by (blast intro: worldAligned_update worldAligned_same_products)
  qed
qed

lemma delete_worldAligned:
  assumes "worldAligned w"
  shows "worldAligned (snd (delete_products_id rt pid w))"
proof (cases "castObjectId rt pid")
  case None
  with assms show ?thesis by (simp add: malformed_id_500)
next
  case (Some oid)
  show ?thesis
  proof (cases "products w oid")
    case None
    with Some assms show ?thesis by (simp add: missing_id_404)
  next
    case (Some p)
    have "products (snd (delete_products_id rt pid w)) = (products w)(oid := None)"
      by (simp add: delete_found_eq [OF \<open>castObjectId rt pid = Some oid\<close> Some])
    with assms show ?thesis
      by (rule worldAligned_remove)
  qed
qed

lemma post_created_photos:
  assumes "fst (post_products_upload rt b fs w) = Response 201 (MessageDoc m (oid, p))"
  shows "otherPhotos p = map path (case f_otherPhotos fs of None \<Rightarrow> [] | Some l \<Rightarrow> l)"
    and "otherPhotosPublicIds p =
           map filename (case f_otherPhotos fs of None \<Rightarrow> [] | Some l \<Rightarrow> l)"
    and "products (snd (post_products_upload rt b fs w)) oid = Some p"
  using post_outcome [of fs rt b w] assms
  by (auto simp: newProduct_def)

lemma put_replaced_photos:
  assumes "fst (put_products_id rt pid b fs w) = Response 200 (MessageDoc m (oid, p'))"
    and "f_otherPhotos fs = Some l"
  shows "otherPhotos p' = map path l" and "otherPhotosPublicIds p' = map filename l"
    and "products (snd (put_products_id rt pid b fs w)) oid = Some p'"
proof -
  from assms(1) obtain oid0 where cast: "castObjectId rt pid = Some oid0"
    by (cases "castObjectId rt pid") (auto simp: malformed_id_500)
  with assms(1) obtain p where found: "products w oid0 = Some p"
    by (cases "products w oid0") (auto simp: missing_id_404)
  from put_found_outcome [OF cast found, of b fs] assms(1)
  have p': "p' = imagesAssigned fs (textFieldsAssigned rt b p)" and oid: "oid = oid0"
    and snd: "products (snd (put_products_id rt pid b fs w)) = (products w)(oid0 \<mapsto> p')"
    by auto
  show "otherPhotos p' = map path l" "otherPhotosPublicIds p' = map filename l"
    using assms(2) by (simp_all add: p' imagesAssigned_def Let_def)
  show "products (snd (put_products_id rt pid b fs w)) oid = Some p'"
    by (simp add: snd oid)
qed

lemma parseFloat_19_99: "parseFloat (JStr ''19.99'') = Fin (1999 / 100)"
  by (simp add: parseFloat_def strUnsignedDecimalLiteral_def isDigit_def isWhiteSpace_def
      digitsValue_def scale10_def)

lemma trim_Smart_Plug: "trim ''Smart Plug'' = ''Smart Plug''"
  by (simp add: trim_def isWhiteSpace_def)

lemma post_smart_plug:
  "post_products_upload exampleRuntime
     (emptyBody\<lparr>b_name := JStr ''Smart Plug'', b_price := JStr ''19.99''\<rparr>) plugFiles emptyWorld =
   (Response 201 (MessageDoc ''Product created successfully!''
      (''65c1f2a3b4d5e6f7a8b9c0d2'',
       \<lparr> name = ''Smart Plug'', price = Fin (1999 / 100), mainImage = ''https://img/plug'',
         mainImagePublicId = ''plug-main'',
         otherPhotos = [''https://img/p1'', ''https://img/p2''],
         otherPhotosPublicIds = [''plug-1'', ''plug-2''], description = Some [],
         classifications = [], status = Some ''available'', statusNote = None,
         expectedArrival = None, uploadDate = 1700000000000, castErrors = [] \<rparr>)),
    \<lparr> products = [''65c1f2a3b4d5e6f7a8b9c0d2'' \<mapsto>
       \<lparr> name = ''Smart Plug'', price = Fin (1999 / 100), mainImage = ''https://img/plug'',
         mainImagePublicId = ''plug-main'',
         otherPhotos = [''https://img/p1'', ''https://img/p2''],
         otherPhotosPublicIds = [''plug-1'', ''plug-2''], description = Some [],
         classifications = [], status = Some ''available'', statusNote = None,
         expectedArrival = None, uploadDate = 1700000000000, castErrors = [] \<rparr>],
      destroyed = [] \<rparr>)"
  by (simp add: post_eq emptyBody_def plugFiles_def emptyWorld_def exampleRuntime_def
      parseFloat_19_99 newProduct_def invalidPaths_def validStatuses_def trim_Smart_Plug
      createThrows_def nameTrimThrows_def newDateThrows_def orEmpty_def Let_def)

lemma lampWorld_lamp: "products lampWorld lampId = Some lamp"
  by (simp add: lampWorld_def)

lemma put_lamp_photos:
  "fst (put_products_id exampleRuntime lampId emptyBody plugFiles lampWorld) =
   Response 200 (MessageDoc ''Product updated successfully''
     (lampId, lamp\<lparr>mainImage := ''https://img/plug'', mainImagePublicId := ''plug-main'',
                   otherPhotos := [''https://img/p1'', ''https://img/p2''],
                   otherPhotosPublicIds := [''plug-1'', ''plug-2'']\<rparr>))"
  by (simp add: put_found_eq [OF exampleRuntime_lampId lampWorld_lamp] emptyBody_def
      plugFiles_def textFieldsAssigned_def imagesAssigned_def invalidPaths_def lamp_def
      validStatuses_def nameTrimThrows_def newDateThrows_def)

lemma lampWorld_aligned: "worldAligned lampWorld"
  by (simp add: worldAligned_def lampWorld_def lamp_def photosAligned_def)

text \<open>
  Claim C5. The product that a creation request returns has its two photo arrays built
  from the same list of uploaded files, \<^verbatim>\<open>otherPhotos\<close> from the paths and
  \<^verbatim>\<open>otherPhotosPublicIds\<close> from the public ids, so they have the same length and the
  same index order; that product is the one stored. An update that uploads other photos
  replaces both arrays in the same way. If every stored product has arrays of equal
  length, this is still so after a creation, an update, a status update or a deletion,
  whatever the request and its outcome.
\<close>

theorem photo_arrays_aligned:
  "(fst (post_products_upload rt b fs w) = Response 201 (MessageDoc m (oid, p)) \<longrightarrow>
      otherPhotos p = map path (case f_otherPhotos fs of None \<Rightarrow> [] | Some l \<Rightarrow> l)
    \<and> otherPhotosPublicIds p = map filename (case f_otherPhotos fs of None \<Rightarrow> [] | Some l \<Rightarrow> l)
    \<and> length (otherPhotos p) = length (otherPhotosPublicIds p)
    \<and> products (snd (post_products_upload rt b fs w)) oid = Some p)
 \<and> (fst (put_products_id rt pid b fs w) = Response 200 (MessageDoc m (oid, p)) \<longrightarrow>
      f_otherPhotos fs = Some l \<longrightarrow>
      otherPhotos p = map path l \<and> otherPhotosPublicIds p = map filename l
    \<and> length (otherPhotos p) = length (otherPhotosPublicIds p)
    \<and> products (snd (put_products_id rt pid b fs w)) oid = Some p)
 \<and> (worldAligned w \<longrightarrow>
      worldAligned (snd (post_products_upload rt b fs w))
    \<and> worldAligned (snd (put_products_id rt pid b fs w))
    \<and> worldAligned (snd (patch_products_id_status rt pid b w))
    \<and> worldAligned (snd (delete_products_id rt pid w)))"
proof (intro conjI impI)
  assume created: "fst (post_products_upload rt b fs w) = Response 201 (MessageDoc m (oid, p))"
  note c = post_created_photos [OF created]
  show "otherPhotos p = map path (case f_otherPhotos fs of None \<Rightarrow> [] | Some l \<Rightarrow> l)"
    by (rule c(1))
  show "otherPhotosPublicIds p =
      map filename (case f_otherPhotos fs of None \<Rightarrow> [] | Some l \<Rightarrow> l)"
    by (rule c(2))
  show "length (otherPhotos p) = length (otherPhotosPublicIds p)"
    by (simp add: c(1) c(2))
  show "products (snd (post_products_upload rt b fs w)) oid = Some p"
    by (rule c(3))
next
  assume updated: "fst (put_products_id rt pid b fs w) = Response 200 (MessageDoc m (oid, p))"
    and photos: "f_otherPhotos fs = Some l"
  note u = put_replaced_photos [OF updated photos]
  show "otherPhotos p = map path l" by (rule u(1))
  show "otherPhotosPublicIds p = map filename l" by (rule u(2))
  show "length (otherPhotos p) = length (otherPhotosPublicIds p)"
    by (simp add: u(1) u(2))
  show "products (snd (put_products_id rt pid b fs w)) oid = Some p"
    by (rule u(3))
next
  assume al: "worldAligned w"
  show "worldAligned (snd (post_products_upload rt b fs w))"
    by (rule post_worldAligned [OF al])
  show "worldAligned (snd (put_products_id rt pid b fs w))"
    by (rule put_worldAligned [OF al])
  show "worldAligned (snd (patch_products_id_status rt pid b w))"
    by (rule patch_worldAligned [OF al])
  show "worldAligned (snd (delete_products_id rt pid w))"
    by (rule delete_worldAligned [OF al])
qed

theorem photo_arrays_aligned_witness:
  "(\<exists>p. fst (post_products_upload exampleRuntime
             (emptyBody\<lparr>b_name := JStr ''Smart Plug'', b_price := JStr ''19.99''\<rparr>)
             plugFiles emptyWorld) =
          Response 201 (MessageDoc ''Product created successfully!''
            (''65c1f2a3b4d5e6f7a8b9c0d2'', p))
        \<and> otherPhotos p = [''https://img/p1'', ''https://img/p2'']
        \<and> otherPhotosPublicIds p = [''plug-1'', ''plug-2''])
   \<and> (\<exists>p. fst (put_products_id exampleRuntime lampId emptyBody plugFiles lampWorld) =
          Response 200 (MessageDoc ''Product updated successfully'' (lampId, p))
        \<and> otherPhotos p = [''https://img/p1'', ''https://img/p2'']
        \<and> otherPhotosPublicIds p = [''plug-1'', ''plug-2'']
        \<and> products (snd (put_products_id exampleRuntime lampId emptyBody plugFiles lampWorld))
              lampId = Some p)
   \<and> worldAligned lampWorld
   \<and> worldAligned (snd (put_products_id exampleRuntime lampId emptyBody plugFiles lampWorld))"
proof -
  let ?b = "emptyBody\<lparr>b_name := JStr ''Smart Plug'', b_price := JStr ''19.99''\<rparr>"
  let ?q = "lamp\<lparr>mainImage := ''https://img/plug'', mainImagePublicId := ''plug-main'',
                   otherPhotos := [''https://img/p1'', ''https://img/p2''],
                   otherPhotosPublicIds := [''plug-1'', ''plug-2'']\<rparr>"
  have photos: "f_otherPhotos plugFiles =
      Some [\<lparr> path = ''https://img/p1'', filename = ''plug-1'' \<rparr>,
            \<lparr> path = ''https://img/p2'', filename = ''plug-2'' \<rparr>]"
    by (simp add: plugFiles_def)
  from post_smart_plug obtain p where
    created: "fst (post_products_upload exampleRuntime ?b plugFiles emptyWorld) =
        Response 201 (MessageDoc ''Product created successfully!''
          (''65c1f2a3b4d5e6f7a8b9c0d2'', p))"
    by simp
  from photo_arrays_aligned [of exampleRuntime ?b plugFiles emptyWorld
      "''Product created successfully!''" "''65c1f2a3b4d5e6f7a8b9c0d2''" p] created
  have first: "otherPhotos p = [''https://img/p1'', ''https://img/p2'']
        \<and> otherPhotosPublicIds p = [''plug-1'', ''plug-2'']"
    by (simp add: photos)
  from photo_arrays_aligned [of exampleRuntime emptyBody plugFiles lampWorld
      "''Product updated successfully''" lampId ?q lampId
      "[\<lparr> path = ''https://img/p1'', filename = ''plug-1'' \<rparr>,
        \<lparr> path = ''https://img/p2'', filename = ''plug-2'' \<rparr>]"] put_lamp_photos photos
  have second: "otherPhotos ?q = [''https://img/p1'', ''https://img/p2'']
        \<and> otherPhotosPublicIds ?q = [''plug-1'', ''plug-2'']
        \<and> products (snd (put_products_id exampleRuntime lampId emptyBody plugFiles lampWorld))
              lampId = Some ?q"
    by simp
  from photo_arrays_aligned [of exampleRuntime emptyBody plugFiles lampWorld _ _ _ lampId]
    lampWorld_aligned
  have third: "worldAligned (snd (put_products_id exampleRuntime lampId emptyBody plugFiles lampWorld))"
    by blast
  show ?thesis
    using created first second third lampWorld_aligned put_lamp_photos by blast
qed

section \<open>The configuration singleton\<close>

text \<open>
  Claim C6. Starting from a collection with no configuration document, the first
  \<^verbatim>\<open>GET /settings\<close> answers 200 with a fresh document whose fields are all at their
  defaults and stores it; the second answers 200 with the same document, identifier
  included, and stores nothing, so exactly one document exists afterwards. On a
  collection that holds one document, \<^verbatim>\<open>getOrCreateConfig\<close> and \<^verbatim>\<open>GET /settings\<close>
  return that document and leave the collection as it is. This holds for the handler of
  \<^verbatim>\<open>server.js\<close> and for the one of the later version.
\<close>

theorem settings_singleton:
  "get_settings rt1 [] =
     (Response 200 (Doc (freshId rt1, newSiteConfig)), [(freshId rt1, newSiteConfig)])
 \<and> get_settings rt2 (snd (get_settings rt1 [])) =
     (Response 200 (Doc (freshId rt1, newSiteConfig)), [(freshId rt1, newSiteConfig)])
 \<and> length (snd (get_settings rt2 (snd (get_settings rt1 [])))) = 1
 \<and> getOrCreateConfig rt [d] = (d, [d])
 \<and> get_settings rt [d] = (Response 200 (Doc d), [d])
 \<and> get_settings_inline rt1 [] =
     (Response 200 (Doc (freshId rt1, newSiteSettings rt1)), [(freshId rt1, newSiteSettings rt1)])
 \<and> get_settings_inline rt2 (snd (get_settings_inline rt1 [])) =
     (Response 200 (Doc (freshId rt1, newSiteSettings rt1)), [(freshId rt1, newSiteSettings rt1)])
 \<and> get_settings_inline rt [e] = (Response 200 (Doc e), [e])"
  by (simp add: get_settings_def getOrCreateConfig_def get_settings_inline_def)

section \<open>Partial update of a product\<close>

lemma textFieldsAssigned_fields:
  "name (textFieldsAssigned rt b p) =
     (if truthy (b_name b) then trim (toString (b_name b)) else name p)"
  "price (textFieldsAssigned rt b p) =
     (if b_price b \<noteq> JUndefined then parseFloat (b_price b) else price p)"
  "description (textFieldsAssigned rt b p) =
     (if b_description b \<noteq> JUndefined then
        (if castFails (b_description b) then description p else castString (b_description b))
      else description p)"
  "classifications (textFieldsAssigned rt b p) =
     (if b_classifications b \<noteq> JUndefined then trim (toString (b_classifications b))
      else classifications p)"
  "status (textFieldsAssigned rt b p) =
     (if b_status b \<noteq> JUndefined then
        (if castFails (b_status b) then status p else castString (b_status b))
      else status p)"
  "statusNote (textFieldsAssigned rt b p) =
     (if b_statusNote b \<noteq> JUndefined then Some (trim (toString (b_statusNote b)))
      else statusNote p)"
  "expectedArrival (textFieldsAssigned rt b p) =
     (if b_expectedArrival b \<noteq> JUndefined then
        (if truthy (b_expectedArrival b)
         then Some (newDate rt (b_expectedArrival b)) else None)
      else expectedArrival p)"
  by (simp_all add: textFieldsAssigned_def)

lemma textFieldsAssigned_castErrors:
  "castErrors (textFieldsAssigned rt b p) =
     castErrors p @ (if castFails (b_description b) then [''description''] else [])
       @ (if castFails (b_status b) then [''status''] else [])"
  by (simp add: textFieldsAssigned_def)

lemma imagesAssigned_castErrors:
  "castErrors (imagesAssigned fs p) = castErrors p"
  by (simp add: imagesAssigned_def Let_def split: option.split list.split)

lemma put_valid_cast:
  assumes "invalidPaths (imagesAssigned fs (textFieldsAssigned rt b p)) = []"
  shows "\<not> castFails (b_description b)" and "\<not> castFails (b_status b)"
  using invalidPaths_castErrors [OF assms]
  by (simp_all add: imagesAssigned_castErrors textFieldsAssigned_castErrors split: if_splits)

lemma imagesAssigned_fields [simp]:
  "name (imagesAssigned fs p) = name p"
  "price (imagesAssigned fs p) = price p"
  "description (imagesAssigned fs p) = description p"
  "classifications (imagesAssigned fs p) = classifications p"
  "status (imagesAssigned fs p) = status p"
  "statusNote (imagesAssigned fs p) = statusNote p"
  "expectedArrival (imagesAssigned fs p) = expectedArrival p"
  "uploadDate (imagesAssigned fs p) = uploadDate p"
  by (simp_all add: imagesAssigned_def Let_def split: option.split list.split)

lemma put_lamp_eq:
  "put_products_id exampleRuntime lampId b fs lampWorld =
    (if nameTrimThrows b then
       (Response 500 (Error ''Failed to update product''), lampWorld)
     else if b_price b \<noteq> JUndefined \<and> convThrows (b_price b) then
       (Response 500 (Error ''Failed to update product''), lampWorld)
     else if b_price b \<noteq> JUndefined \<and> isNaN (parseFloat (b_price b)) then
       (Response 400 (Error ''Invalid price value''), lampWorld)
     else if trimThrows (b_classifications b) \<or> trimThrows (b_statusNote b) \<or> newDateThrows b
     then
       (Response 500 (Error ''Failed to update product''), lampWorld)
     else if f_mainImage fs = Some [] then
       (Response 500 (Error ''Failed to update product''),
        safeCloudinaryDestroy (mainImagePublicId lamp) lampWorld)
     else if invalidPaths (imagesAssigned fs (textFieldsAssigned exampleRuntime b lamp)) = [] then
       (Response 200 (MessageDoc ''Product updated successfully''
          (lampId, imagesAssigned fs (textFieldsAssigned exampleRuntime b lamp))),
        (oldImagesDestroyed fs lamp lampWorld)
          \<lparr>products := (products lampWorld)
             (lampId \<mapsto> imagesAssigned fs (textFieldsAssigned exampleRuntime b lamp))\<rparr>)
     else (Response 500 (Error ''Failed to update product''),
           oldImagesDestroyed fs lamp lampWorld))"
  by (rule put_found_eq [OF exampleRuntime_lampId lampWorld_lamp])

lemma lamp_valid: "invalidPaths lamp = []"
  by (simp add: invalidPaths_def lamp_def validStatuses_def)

lemma trim_smart: "trim ''  smart '' = ''smart''"
  by (simp add: trim_def isWhiteSpace_def)

text \<open>
  Claim C1, as amended. For an existing product, when \<^verbatim>\<open>PUT /products/:id\<close> answers
  200 the stored document is the returned one, every field that is absent from the body
  keeps its stored value, and every field that is present overwrites it, the empty
  string included: the description as sent, the classifications and the status note
  trimmed, the price parsed, the status as sent, the expected arrival as the date made
  of it or cleared when it is empty. The name is the exception: it is overwritten, with
  its trimmed value, only when it is truthy, and a name sent as the empty string leaves
  the stored name as it was. When the answer is not 200 no stored document has changed.
\<close>

theorem put_partial_update:
  assumes "castObjectId rt pid = Some oid" and "products w oid = Some p"
  shows "(statusCode (fst (put_products_id rt pid b fs w)) = 200 \<longrightarrow>
      (\<exists>p'. fst (put_products_id rt pid b fs w) =
               Response 200 (MessageDoc ''Product updated successfully'' (oid, p'))
           \<and> products (snd (put_products_id rt pid b fs w)) = (products w)(oid \<mapsto> p')
           \<and> (truthy (b_name b) \<longrightarrow> name p' = trim (toString (b_name b)))
           \<and> (falsy (b_name b) \<longrightarrow> name p' = name p)
           \<and> (b_price b = JUndefined \<longrightarrow> price p' = price p)
           \<and> (b_price b \<noteq> JUndefined \<longrightarrow> price p' = parseFloat (b_price b))
           \<and> (b_description b = JUndefined \<longrightarrow> description p' = description p)
           \<and> (b_description b \<noteq> JUndefined \<longrightarrow> description p' = castString (b_description b))
           \<and> (b_classifications b = JUndefined \<longrightarrow> classifications p' = classifications p)
           \<and> (b_classifications b \<noteq> JUndefined \<longrightarrow>
                 classifications p' = trim (toString (b_classifications b)))
           \<and> (b_status b = JUndefined \<longrightarrow> status p' = status p)
           \<and> (b_status b \<noteq> JUndefined \<longrightarrow> status p' = castString (b_status b))
           \<and> (b_statusNote b = JUndefined \<longrightarrow> statusNote p' = statusNote p)
           \<and> (b_statusNote b \<noteq> JUndefined \<longrightarrow>
                 statusNote p' = Some (trim (toString (b_statusNote b))))
           \<and> (b_expectedArrival b = JUndefined \<longrightarrow> expectedArrival p' = expectedArrival p)
           \<and> (b_expectedArrival b \<noteq> JUndefined \<longrightarrow>
                 expectedArrival p' =
                   (if truthy (b_expectedArrival b)
                    then Some (newDate rt (b_expectedArrival b)) else None))
           \<and> uploadDate p' = uploadDate p))
    \<and> (statusCode (fst (put_products_id rt pid b fs w)) \<noteq> 200 \<longrightarrow>
          products (snd (put_products_id rt pid b fs w)) = products w)"
  using put_found_outcome [OF assms, of b fs]
proof
  assume "put_products_id rt pid b fs w =
            (Response 200 (MessageDoc ''Product updated successfully''
               (oid, imagesAssigned fs (textFieldsAssigned rt b p))),
             (oldImagesDestroyed fs p w)
               \<lparr>products := (products w)(oid \<mapsto> imagesAssigned fs (textFieldsAssigned rt b p))\<rparr>)
          \<and> invalidPaths (imagesAssigned fs (textFieldsAssigned rt b p)) = []"
  then have ok: "put_products_id rt pid b fs w =
            (Response 200 (MessageDoc ''Product updated successfully''
               (oid, imagesAssigned fs (textFieldsAssigned rt b p))),
             (oldImagesDestroyed fs p w)
               \<lparr>products := (products w)(oid \<mapsto> imagesAssigned fs (textFieldsAssigned rt b p))\<rparr>)"
    and cast: "\<not> castFails (b_description b)" "\<not> castFails (b_status b)"
    by (blast dest: put_valid_cast)+
  have "\<exists>p'. fst (put_products_id rt pid b fs w) =
               Response 200 (MessageDoc ''Product updated successfully'' (oid, p'))
           \<and> products (snd (put_products_id rt pid b fs w)) = (products w)(oid \<mapsto> p')
           \<and> (truthy (b_name b) \<longrightarrow> name p' = trim (toString (b_name b)))
           \<and> (falsy (b_name b) \<longrightarrow> name p' = name p)
           \<and> (b_price b = JUndefined \<longrightarrow> price p' = price p)
           \<and> (b_price b \<noteq> JUndefined \<longrightarrow> price p' = parseFloat (b_price b))
           \<and> (b_description b = JUndefined \<longrightarrow> description p' = description p)
           \<and> (b_description b \<noteq> JUndefined \<longrightarrow> description p' = castString (b_description b))
           \<and> (b_classifications b = JUndefined \<longrightarrow> classifications p' = classifications p)
           \<and> (b_classifications b \<noteq> JUndefined \<longrightarrow>
                 classifications p' = trim (toString (b_classifications b)))
           \<and> (b_status b = JUndefined \<longrightarrow> status p' = status p)
           \<and> (b_status b \<noteq> JUndefined \<longrightarrow> status p' = castString (b_status b))
           \<and> (b_statusNote b = JUndefined \<longrightarrow> statusNote p' = statusNote p)
           \<and> (b_statusNote b \<noteq> JUndefined \<longrightarrow>
                 statusNote p' = Some (trim (toString (b_statusNote b))))
           \<and> (b_expectedArrival b = JUndefined \<longrightarrow> expectedArrival p' = expectedArrival p)
           \<and> (b_expectedArrival b \<noteq> JUndefined \<longrightarrow>
                 expectedArrival p' =
                   (if truthy (b_expectedArrival b)
                    then Some (newDate rt (b_expectedArrival b)) else None))
           \<and> uploadDate p' = uploadDate p"
    by (rule exI [of _ "imagesAssigned fs (textFieldsAssigned rt b p)"])
       (simp add: ok cast textFieldsAssigned_fields falsy_truthy)
  then show ?thesis
    by (simp add: ok)
next
  assume "statusCode (fst (put_products_id rt pid b fs w)) \<noteq> 200
          \<and> products (snd (put_products_id rt pid b fs w)) = products w"
  then show ?thesis by simp
qed

theorem put_partial_update_witness:
  "castObjectId exampleRuntime lampId = Some lampId \<and> products lampWorld lampId = Some lamp
   \<and> (\<exists>p'. fst (put_products_id exampleRuntime lampId
                (emptyBody\<lparr>b_name := JStr [], b_description := JStr [],
                            b_classifications := JStr ''  smart ''\<rparr>) noFiles lampWorld) =
               Response 200 (MessageDoc ''Product updated successfully'' (lampId, p'))
          \<and> products (snd (put_products_id exampleRuntime lampId
                (emptyBody\<lparr>b_name := JStr [], b_description := JStr [],
                            b_classifications := JStr ''  smart ''\<rparr>) noFiles lampWorld)) lampId =
               Some p'
          \<and> name p' = ''Lamp'' \<and> description p' = Some [] \<and> classifications p' = ''smart''
          \<and> price p' = Fin 10 \<and> status p' = Some ''available'')"
proof -
  let ?b = "emptyBody\<lparr>b_name := JStr [], b_description := JStr [],
                       b_classifications := JStr ''  smart ''\<rparr>"
  have ok: "statusCode (fst (put_products_id exampleRuntime lampId ?b noFiles lampWorld)) = 200"
    by (simp add: put_lamp_eq emptyBody_def noFiles_def imagesAssigned_def
        textFieldsAssigned_def invalidPaths_def lamp_def validStatuses_def nameTrimThrows_def newDateThrows_def)
  from put_partial_update [OF exampleRuntime_lampId lampWorld_lamp, of ?b noFiles] ok
  obtain p' where p':
    "fst (put_products_id exampleRuntime lampId ?b noFiles lampWorld) =
       Response 200 (MessageDoc ''Product updated successfully'' (lampId, p'))"
    "products (snd (put_products_id exampleRuntime lampId ?b noFiles lampWorld)) =
       (products lampWorld)(lampId \<mapsto> p')"
    "falsy (b_name ?b) \<longrightarrow> name p' = name lamp"
    "b_price ?b = JUndefined \<longrightarrow> price p' = price lamp"
    "b_description ?b \<noteq> JUndefined \<longrightarrow> description p' = castString (b_description ?b)"
    "b_classifications ?b \<noteq> JUndefined \<longrightarrow>
       classifications p' = trim (toString (b_classifications ?b))"
    "b_status ?b = JUndefined \<longrightarrow> status p' = status lamp"
    by blast
  show ?thesis
    using p'
    by (simp add: exampleRuntime_lampId lampWorld_lamp emptyBody_def lamp_def trim_smart)
qed

text \<open>
  The claim as first stated fails for the name: the request below sends the name as the
  empty string, is answered with 200, and the stored name is still the old one.
\<close>

theorem put_empty_name_not_overwritten:
  "b_name (emptyBody\<lparr>b_name := JStr []\<rparr>) = JStr []
   \<and> products lampWorld lampId = Some lamp \<and> name lamp = ''Lamp''
   \<and> put_products_id exampleRuntime lampId (emptyBody\<lparr>b_name := JStr []\<rparr>) noFiles lampWorld =
       (Response 200 (MessageDoc ''Product updated successfully'' (lampId, lamp)), lampWorld)"
proof -
  have "textFieldsAssigned exampleRuntime (emptyBody\<lparr>b_name := JStr []\<rparr>) lamp = lamp"
    by (simp add: textFieldsAssigned_def emptyBody_def)
  moreover have "imagesAssigned noFiles lamp = lamp"
    by (simp add: imagesAssigned_def noFiles_def)
  moreover have "oldImagesDestroyed noFiles lamp lampWorld = lampWorld"
    by (simp add: oldImagesDestroyed_def noFiles_def)
  moreover have "lampWorld\<lparr>products := (products lampWorld)(lampId \<mapsto> lamp)\<rparr> = lampWorld"
    by (simp add: lampWorld_def)
  ultimately show ?thesis
    by (simp add: put_lamp_eq lamp_valid lampWorld_lamp)
       (simp add: emptyBody_def noFiles_def lamp_def nameTrimThrows_def newDateThrows_def)
qed

section \<open>Price validation on update\<close>





section \<open>What the handlers leave to the schema\<close>

lemma parseFloat_minus_5: "parseFloat (JStr ''-5'') = Fin (- 5)"
  by (simp add: parseFloat_def strUnsignedDecimalLiteral_def isDigit_def isWhiteSpace_def
      digitsValue_def scale10_def)

lemma parseFloat_Infinity: "parseFloat (JStr ''Infinity'') = PosInfinity"
  by (simp add: parseFloat_def strUnsignedDecimalLiteral_def isWhiteSpace_def)

lemma parseFloat_10: "parseFloat (JStr ''10'') = Fin 10"
  by (simp add: parseFloat_def strUnsignedDecimalLiteral_def isDigit_def isWhiteSpace_def
      digitsValue_def scale10_def)

lemma trim_blank: "trim ''   '' = []"
  by (simp add: trim_def isWhiteSpace_def)

text \<open>
  Claim C2. A status outside the enum is answered with 400 and the list of valid
  statuses by \<^verbatim>\<open>PATCH /products/:id/status\<close>, which checks it. The creation and the
  full update do not check it: the schema rejects the document when it is saved, the
  handler's \<^verbatim>\<open>catch\<close> answers 500, and nothing is written.
\<close>

theorem invalid_status_answers:
  "post_products_upload exampleRuntime
     (emptyBody\<lparr>b_name := JStr ''Smart Plug'', b_price := JStr ''19.99'',
                 b_status := JStr ''broken''\<rparr>) plugFiles emptyWorld =
     (Response 500 (ErrorDetails ''Failed to create product'' (ValidationError [''status''])),
      emptyWorld)
 \<and> put_products_id exampleRuntime lampId (emptyBody\<lparr>b_status := JStr ''broken''\<rparr>) noFiles
      lampWorld =
     (Response 500 (Error ''Failed to update product''), lampWorld)
 \<and> patch_products_id_status exampleRuntime lampId (emptyBody\<lparr>b_status := JStr ''broken''\<rparr>)
      lampWorld =
     (Response 400 (ErrorValidStatuses ''Invalid status'' validStatuses), lampWorld)"
proof (intro conjI)
  show "post_products_upload exampleRuntime
     (emptyBody\<lparr>b_name := JStr ''Smart Plug'', b_price := JStr ''19.99'',
                 b_status := JStr ''broken''\<rparr>) plugFiles emptyWorld =
     (Response 500 (ErrorDetails ''Failed to create product'' (ValidationError [''status''])),
      emptyWorld)"
    by (simp add: post_eq emptyBody_def plugFiles_def parseFloat_19_99 newProduct_def
        invalidPaths_def validStatuses_def trim_Smart_Plug Let_def
        createThrows_def nameTrimThrows_def newDateThrows_def orEmpty_def)
  show "put_products_id exampleRuntime lampId (emptyBody\<lparr>b_status := JStr ''broken''\<rparr>) noFiles
      lampWorld =
     (Response 500 (Error ''Failed to update product''), lampWorld)"
    by (simp add: put_lamp_eq emptyBody_def noFiles_def imagesAssigned_def
        textFieldsAssigned_def oldImagesDestroyed_def invalidPaths_def lamp_def validStatuses_def
        nameTrimThrows_def newDateThrows_def)
  show "patch_products_id_status exampleRuntime lampId (emptyBody\<lparr>b_status := JStr ''broken''\<rparr>)
      lampWorld =
     (Response 400 (ErrorValidStatuses ''Invalid status'' validStatuses), lampWorld)"
    by (simp add: patch_found_eq [OF exampleRuntime_lampId lampWorld_lamp] emptyBody_def)
       (simp add: validStatuses_def)
qed

text \<open>
  Claim C3. A creation request whose name is missing or empty is answered with 400
  \<^verbatim>\<open>Product name is required\<close>. A name of white space only passes that check,
  is trimmed to the empty string, and is rejected by the schema when the document is
  saved: the answer is 500 and nothing is written.
\<close>

theorem blank_name_answers:
  "post_products_upload exampleRuntime
     (emptyBody\<lparr>b_name := JStr ''   '', b_price := JStr ''10''\<rparr>) plugFiles emptyWorld =
     (Response 500 (ErrorDetails ''Failed to create product'' (ValidationError [''name''])),
      emptyWorld)
 \<and> post_products_upload exampleRuntime
     (emptyBody\<lparr>b_name := JStr [], b_price := JStr ''10''\<rparr>) plugFiles emptyWorld =
     (Response 400 (Error ''Product name is required''), emptyWorld)
 \<and> post_products_upload exampleRuntime
     (emptyBody\<lparr>b_price := JStr ''10''\<rparr>) plugFiles emptyWorld =
     (Response 400 (Error ''Product name is required''), emptyWorld)"
  by (simp add: post_eq emptyBody_def plugFiles_def parseFloat_10 newProduct_def
      invalidPaths_def validStatuses_def trim_blank Let_def createThrows_def
      nameTrimThrows_def newDateThrows_def orEmpty_def)

text \<open>
  Claim C4. A price that parses to \<^verbatim>\<open>NaN\<close> is answered with 400. A negative price
  passes the handlers' check and is rejected by the schema's \<^verbatim>\<open>min: 0\<close> when the
  document is saved: the answer is 500, on creation and on update, and nothing is
  written. The price \<^verbatim>\<open>Infinity\<close> passes both, and the product is created with it.
\<close>

theorem negative_price_answers:
  "post_products_upload exampleRuntime
     (emptyBody\<lparr>b_name := JStr ''Smart Plug'', b_price := JStr ''-5''\<rparr>) plugFiles emptyWorld =
     (Response 500 (ErrorDetails ''Failed to create product'' (ValidationError [''price''])),
      emptyWorld)
 \<and> put_products_id exampleRuntime lampId (emptyBody\<lparr>b_price := JStr ''-5''\<rparr>) noFiles lampWorld =
     (Response 500 (Error ''Failed to update product''), lampWorld)
 \<and> fst (post_products_upload exampleRuntime
     (emptyBody\<lparr>b_name := JStr ''Smart Plug'', b_price := JStr ''Infinity''\<rparr>) plugFiles
     emptyWorld) =
     Response 201 (MessageDoc ''Product created successfully!''
       (''65c1f2a3b4d5e6f7a8b9c0d2'',
        newProduct exampleRuntime
          (emptyBody\<lparr>b_name := JStr ''Smart Plug'', b_price := JStr ''Infinity''\<rparr>)
          \<lparr> path = ''https://img/plug'', filename = ''plug-main'' \<rparr>
          [\<lparr> path = ''https://img/p1'', filename = ''plug-1'' \<rparr>,
           \<lparr> path = ''https://img/p2'', filename = ''plug-2'' \<rparr>]))
 \<and> price (newProduct exampleRuntime
          (emptyBody\<lparr>b_name := JStr ''Smart Plug'', b_price := JStr ''Infinity''\<rparr>)
          \<lparr> path = ''https://img/plug'', filename = ''plug-main'' \<rparr>
          [\<lparr> path = ''https://img/p1'', filename = ''plug-1'' \<rparr>,
           \<lparr> path = ''https://img/p2'', filename = ''plug-2'' \<rparr>]) = PosInfinity
 \<and> post_products_upload exampleRuntime
     (emptyBody\<lparr>b_name := JStr ''Smart Plug'', b_price := JStr ''abc''\<rparr>) plugFiles emptyWorld =
     (Response 400 (Error ''Valid price is required''), emptyWorld)"
proof (intro conjI)
  show "post_products_upload exampleRuntime
     (emptyBody\<lparr>b_name := JStr ''Smart Plug'', b_price := JStr ''-5''\<rparr>) plugFiles emptyWorld =
     (Response 500 (ErrorDetails ''Failed to create product'' (ValidationError [''price''])),
      emptyWorld)"
    by (simp add: post_eq emptyBody_def plugFiles_def parseFloat_minus_5 newProduct_def
        invalidPaths_def validStatuses_def trim_Smart_Plug Let_def
        createThrows_def nameTrimThrows_def newDateThrows_def orEmpty_def)
  show "put_products_id exampleRuntime lampId (emptyBody\<lparr>b_price := JStr ''-5''\<rparr>) noFiles
      lampWorld = (Response 500 (Error ''Failed to update product''), lampWorld)"
    by (simp add: put_lamp_eq emptyBody_def noFiles_def imagesAssigned_def parseFloat_minus_5
        textFieldsAssigned_def oldImagesDestroyed_def invalidPaths_def lamp_def validStatuses_def
        nameTrimThrows_def newDateThrows_def)
  show "fst (post_products_upload exampleRuntime
     (emptyBody\<lparr>b_name := JStr ''Smart Plug'', b_price := JStr ''Infinity''\<rparr>) plugFiles
     emptyWorld) =
     Response 201 (MessageDoc ''Product created successfully!''
       (''65c1f2a3b4d5e6f7a8b9c0d2'',
        newProduct exampleRuntime
          (emptyBody\<lparr>b_name := JStr ''Smart Plug'', b_price := JStr ''Infinity''\<rparr>)
          \<lparr> path = ''https://img/plug'', filename = ''plug-main'' \<rparr>
          [\<lparr> path = ''https://img/p1'', filename = ''plug-1'' \<rparr>,
           \<lparr> path = ''https://img/p2'', filename = ''plug-2'' \<rparr>]))"
    by (simp add: post_eq emptyBody_def plugFiles_def parseFloat_Infinity newProduct_def
        invalidPaths_def validStatuses_def trim_Smart_Plug Let_def
        createThrows_def nameTrimThrows_def newDateThrows_def orEmpty_def emptyWorld_def)
       (simp add: exampleRuntime_def)
  show "price (newProduct exampleRuntime
          (emptyBody\<lparr>b_name := JStr ''Smart Plug'', b_price := JStr ''Infinity''\<rparr>)
          \<lparr> path = ''https://img/plug'', filename = ''plug-main'' \<rparr>
          [\<lparr> path = ''https://img/p1'', filename = ''plug-1'' \<rparr>,
           \<lparr> path = ''https://img/p2'', filename = ''plug-2'' \<rparr>]) = PosInfinity"
    by (simp add: newProduct_def parseFloat_Infinity)
  show "post_products_upload exampleRuntime
     (emptyBody\<lparr>b_name := JStr ''Smart Plug'', b_price := JStr ''abc''\<rparr>) plugFiles emptyWorld =
     (Response 400 (Error ''Valid price is required''), emptyWorld)"
    by (simp add: post_eq emptyBody_def parseFloat_abc)
qed


end
